theory Spec2Isabelle
  imports Main "HOL-Library.Word" "HOL-Library.Sublist"
begin

section \<open>Story generator: prompt builder, WAV wrapping and the audio flow\<close>

text \<open>
  A shallow embedding of \<^verbatim>\<open>Story_Generation.py\<close> and of the two button handlers of
  \<^verbatim>\<open>app.py\<close>. Python strings are modelled as \<open>string\<close>, holding the UTF-8 bytes of
  the text (the prompt has two non-ASCII characters, an em dash and a right arrow, each
  three bytes long); \<^verbatim>\<open>bytes\<close> objects are lists of 8-bit words.
\<close>

subsection \<open>The prompt (\<^verbatim>\<open>story_prompt\<close>, Story_Generation.py lines 156-186)\<close>

definition nl :: string where
  "nl = [CHR 0x0A]"

definition emdash :: string where
  "emdash = [CHR 0xE2, CHR 0x80, CHR 0x94]"

definition rarrow :: string where
  "rarrow = [CHR 0xE2, CHR 0x86, CHR 0x92]"

text \<open>
  The f-string of \<^verbatim>\<open>story_prompt\<close>, line by line, with the indentation and the
  trailing blanks of the source. It has one replacement field, \<^verbatim>\<open>{story_type}\<close>, in
  its second line; the first line (after the opening quotes) is empty and the last one is
  the indentation before the closing quotes.
\<close>

definition prompt_lines :: "string \<Rightarrow> string list" where
  "prompt_lines story_type =
     ['''',
      ''        You are a professional and skilled storyteller. Your job is to write a **'' @ story_type @ '' story** using the uploaded images as your inspiration.'',
      ''        Use simple and easy to understand english'',
      ''        **Instructions:**'',
      ''        1. Look carefully at all the uploaded images. Imagine what could be happening in each one.  '',
      ''        2. Write a story that connects all the images **in order**. Each image should feel like one scene in the story.  '',
      ''        3. The story must have **at least 7 clear paragraphs**:'',
      ''        - **Paragraph 1:** Begin the story '' @ emdash @ '' set the place, time, and main character(s).  '',
      ''        - **Paragraphs 2-5:** Build the story using ideas from each image. Keep the flow natural and smooth.  '',
      ''        - **Paragraph 6:** Add an important or surprising moment (the climax).  '',
      ''        - **Paragraph 7:** End with a meaningful or emotional ending.  '',
      ''        4. Match the **tone and feeling** to the selected story type:  '',
      ''        - Horror '' @ rarrow @ '' spooky and mysterious  '',
      ''        - Comedy '' @ rarrow @ '' light and funny  '',
      ''        - Adventure '' @ rarrow @ '' exciting and bold  '',
      ''        - Emotional '' @ rarrow @ '' touching and heartfelt  '',
      ''        - Thriller '' @ rarrow @ '' full of suspense  '',
      ''        - Moral '' @ rarrow @ '' gives a life lesson  '',
      ''        - Fantasy '' @ rarrow @ '' magical and creative  '',
      ''        - Fairy Tale '' @ rarrow @ '' simple and dreamlike  '',
      ''        - Action '' @ rarrow @ '' fast and powerful  '',
      ''        - Mystery '' @ rarrow @ '' curious and clever  '',
      ''        5. Don't describe the images directly. Instead, **turn what you see into a smooth story** that feels natural and human.  '',
      ''        6. Write in **simple, clear, and beautiful English** that anyone can enjoy reading.  '',
      ''        7. The story should be **500-700 words** long and **feel complete**.'',
      '''',
      ''        Now write the full story using these images as inspiration.'',
      ''        '']"

fun join_lines :: "string list \<Rightarrow> string" where
  "join_lines [] = []"
| "join_lines [l] = l"
| "join_lines (l # ls) = l @ nl @ join_lines ls"

definition story_prompt :: "string \<Rightarrow> string" where
  "story_prompt story_type = join_lines (prompt_lines story_type)"

text \<open>The options of the genre select box (app.py lines 190-204), in the order of the source.\<close>

definition genres :: "string list" where
  "genres =
     [''Comedy'', ''Thriller'', ''Moral'', ''Horror'', ''Emotional'', ''Adventurous'',
      ''Action'', ''Mysterious'', ''Fantasy'', ''Fairy Tale'']"

text \<open>
  The tone table of the prompt (instruction 4, lines 169-178): the name of each row and the
  tone words after the arrow.
\<close>

definition tone_table :: "(string \<times> string) list" where
  "tone_table =
     [(''Horror'', ''spooky and mysterious''),
      (''Comedy'', ''light and funny''),
      (''Adventure'', ''exciting and bold''),
      (''Emotional'', ''touching and heartfelt''),
      (''Thriller'', ''full of suspense''),
      (''Moral'', ''gives a life lesson''),
      (''Fantasy'', ''magical and creative''),
      (''Fairy Tale'', ''simple and dreamlike''),
      (''Action'', ''fast and powerful''),
      (''Mystery'', ''curious and clever'')]"

text \<open>
  Two labels of the select box are adjectives where the table has the noun; every other
  label is the name of its row.
\<close>

definition tone_row :: "string \<Rightarrow> string" where
  "tone_row g =
     (if g = ''Adventurous'' then ''Adventure''
      else if g = ''Mysterious'' then ''Mystery''
      else g)"

definition tone_keyword :: "string \<Rightarrow> string option" where
  "tone_keyword g = map_of tone_table (tone_row g)"

text \<open>A row as the prompt prints it: eight blanks, a dash, the name, the arrow, the tone, two blanks.\<close>

definition table_line :: "string \<times> string \<Rightarrow> string" where
  "table_line r = ''        - '' @ fst r @ '' '' @ rarrow @ '' '' @ snd r @ ''  ''"

definition request_line :: "string \<Rightarrow> string" where
  "request_line g =
     ''        You are a professional and skilled storyteller. Your job is to write a **'' @ g @
     '' story** using the uploaded images as your inspiration.''"

subsection \<open>Exceptions, bytes and the in-memory file\<close>

text \<open>
  The exceptions that the modelled code can meet. All of them are subclasses of
  \<^verbatim>\<open>Exception\<close> but the last two, which derive from \<^verbatim>\<open>BaseException\<close> only, so that
  an \<^verbatim>\<open>except Exception\<close> clause does not catch them. \<open>WaveError\<close> is \<^verbatim>\<open>wave.Error\<close>,
  \<open>StructError\<close> is \<^verbatim>\<open>struct.error\<close>, \<open>APIError\<close> stands for the errors of the remote
  client.
\<close>

datatype exn =
    ValueError string
  | WaveError string
  | StructError
  | AssertionError
  | AttributeError
  | EOFError
  | IndexError
  | TypeError
  | RuntimeError
  | ZeroDivisionError
  | OSError
  | UnicodeEncodeError
  | APIError
  | KeyboardInterrupt
  | SystemExit

fun is_Exception :: "exn \<Rightarrow> bool" where
  "is_Exception KeyboardInterrupt = False"
| "is_Exception SystemExit = False"
| "is_Exception _ = True"

type_synonym byte = "8 word"
type_synonym bytes = "byte list"

definition ascii :: "string \<Rightarrow> bytes" where
  "ascii s = map (\<lambda>c. of_nat (of_char c)) s"

text \<open>
  \<^verbatim>\<open>io.BytesIO\<close>: the buffer and the position. Writing past the end pads with zero bytes;
  writing nothing changes nothing; a read returns what is there, up to the size asked for.
\<close>

record bytesio =
  buf :: bytes
  pos :: nat

definition BytesIO :: bytesio where
  "BytesIO = \<lparr>buf = [], pos = 0\<rparr>"

definition bio_write :: "bytes \<Rightarrow> bytesio \<Rightarrow> bytesio" where
  "bio_write b f =
     (if b = [] then f
      else let padded = buf f @ replicate (pos f - length (buf f)) 0
           in \<lparr>buf = take (pos f) padded @ b @ drop (pos f + length b) padded,
               pos = pos f + length b\<rparr>)"

definition bio_read :: "nat \<Rightarrow> bytesio \<Rightarrow> bytes \<times> bytesio" where
  "bio_read n f =
     (if length (buf f) \<le> pos f then ([], f)
      else let newpos = min (length (buf f)) (pos f + n)
           in (take (newpos - pos f) (drop (pos f) (buf f)), f\<lparr>pos := newpos\<rparr>))"

definition bio_tell :: "bytesio \<Rightarrow> nat" where
  "bio_tell f = pos f"

definition bio_seek :: "nat \<Rightarrow> bytesio \<Rightarrow> bytesio" where
  "bio_seek p f = f\<lparr>pos := p\<rparr>"

definition getvalue :: "bytesio \<Rightarrow> bytes" where
  "getvalue f = buf f"

subsection \<open>\<^verbatim>\<open>struct.pack\<close> and \<^verbatim>\<open>struct.unpack_from\<close>, little-endian\<close>

primrec le_bytes :: "nat \<Rightarrow> nat \<Rightarrow> bytes" where
  "le_bytes 0 v = []"
| "le_bytes (Suc n) v = of_nat (v mod 256) # le_bytes n (v div 256)"

primrec le_val :: "bytes \<Rightarrow> nat" where
  "le_val [] = 0"
| "le_val (b # bs) = unat b + 256 * le_val bs"

text \<open>
  The format codes used by the wave module: \<open>L\<close> is an unsigned 32-bit field, \<open>H\<close> an
  unsigned 16-bit field, \<open>S4\<close> the code \<^verbatim>\<open>4s\<close> (four bytes as they are). A value outside
  the range of its field raises \<^verbatim>\<open>struct.error\<close>.
\<close>

datatype field = L nat | H nat | S4 bytes

fun pack_field :: "field \<Rightarrow> exn + bytes" where
  "pack_field (L v) = (if v < 2 ^ 32 then Inr (le_bytes 4 v) else Inl StructError)"
| "pack_field (H v) = (if v < 2 ^ 16 then Inr (le_bytes 2 v) else Inl StructError)"
| "pack_field (S4 b) = Inr (take 4 (b @ replicate 4 0))"

fun struct_pack :: "field list \<Rightarrow> exn + bytes" where
  "struct_pack [] = Inr []"
| "struct_pack (f # fs) =
     (case pack_field f of
        Inl e \<Rightarrow> Inl e
      | Inr b \<Rightarrow> (case struct_pack fs of Inl e \<Rightarrow> Inl e | Inr bs \<Rightarrow> Inr (b @ bs)))"

text \<open>\<^verbatim>\<open>struct.unpack_from\<close> of one field of \<open>n\<close> bytes: an error when the buffer is shorter.\<close>

definition unpack_le :: "nat \<Rightarrow> bytes \<Rightarrow> exn + nat" where
  "unpack_le n b = (if length b < n then Inl StructError else Inr (le_val (take n b)))"

subsection \<open>\<^verbatim>\<open>wave.Wave_write\<close> (the standard library's wave.py)\<close>

text \<open>
  The wave-wrapping step of \<^verbatim>\<open>generate_audio_from_generated_story\<close> (lines 280-289) is
  four calls on a \<^verbatim>\<open>Wave_write\<close> object inside a \<^verbatim>\<open>with\<close> statement. The class is
  embedded method by method. The record holds the attributes of the object; \<open>wfile\<close> is the
  \<^verbatim>\<open>BytesIO\<close> that both \<^verbatim>\<open>self._file\<close> and the caller's \<^verbatim>\<open>audio_buffer\<close> refer to, and
  \<open>file_is_None\<close> says that \<^verbatim>\<open>close\<close> has reset \<^verbatim>\<open>self._file\<close>. The two header positions
  are attributes that exist only once the header has been written.

  A call returns the exception it raised, if any, together with the object as the
  exception left it: the \<^verbatim>\<open>with\<close> statement calls \<^verbatim>\<open>close\<close> on that object.
\<close>

datatype byteorder = Little | Big

record wave_write =
  wfile :: bytesio
  file_is_None :: bool
  nchannels :: nat
  sampwidth :: nat
  framerate :: nat
  nframes :: nat
  nframeswritten :: nat
  datawritten :: nat
  datalength :: nat
  headerwritten :: bool
  form_length_pos :: "nat option"
  data_length_pos :: "nat option"

type_synonym 's call = "'s \<Rightarrow> exn option \<times> 's"

definition seq :: "'s call \<Rightarrow> 's call \<Rightarrow> 's call" where
  "seq f g s = (case f s of (None, s') \<Rightarrow> g s' | (Some e, s') \<Rightarrow> (Some e, s'))"

definition initfp :: "bytesio \<Rightarrow> wave_write" where
  "initfp f =
     \<lparr>wfile = f, file_is_None = False, nchannels = 0, sampwidth = 0, framerate = 0,
      nframes = 0, nframeswritten = 0, datawritten = 0, datalength = 0,
      headerwritten = False, form_length_pos = None, data_length_pos = None\<rparr>"

definition setnchannels :: "nat \<Rightarrow> wave_write call" where
  "setnchannels n w =
     (if datawritten w \<noteq> 0
      then (Some (WaveError ''cannot change parameters after starting to write''), w)
      else if n < 1 then (Some (WaveError ''bad # of channels''), w)
      else (None, w\<lparr>nchannels := n\<rparr>))"

definition setsampwidth :: "nat \<Rightarrow> wave_write call" where
  "setsampwidth n w =
     (if datawritten w \<noteq> 0
      then (Some (WaveError ''cannot change parameters after starting to write''), w)
      else if n < 1 \<or> n > 4 then (Some (WaveError ''bad sample width''), w)
      else (None, w\<lparr>sampwidth := n\<rparr>))"

definition setframerate :: "nat \<Rightarrow> wave_write call" where
  "setframerate n w =
     (if datawritten w \<noteq> 0
      then (Some (WaveError ''cannot change parameters after starting to write''), w)
      else if n \<le> 0 then (Some (WaveError ''bad frame rate''), w)
      else (None, w\<lparr>framerate := n\<rparr>))"

definition WAVE_FORMAT_PCM :: nat where
  "WAVE_FORMAT_PCM = 1"

definition write_header :: "nat \<Rightarrow> wave_write call" where
  "write_header initlength w =
     (if headerwritten w then (Some AssertionError, w)
      else
        let w1 = w\<lparr>wfile := bio_write (ascii ''RIFF'') (wfile w)\<rparr> in
        if nframes w1 = 0 \<and> nchannels w1 * sampwidth w1 = 0 then (Some ZeroDivisionError, w1)
        else
          let w2 = (if nframes w1 = 0
                    then w1\<lparr>nframes := initlength div (nchannels w1 * sampwidth w1)\<rparr>
                    else w1);
              w3 = w2\<lparr>datalength := nframes w2 * nchannels w2 * sampwidth w2\<rparr>;
              w4 = w3\<lparr>form_length_pos := Some (bio_tell (wfile w3))\<rparr>
          in case struct_pack
                 [L (36 + datalength w4), S4 (ascii ''WAVE''), S4 (ascii ''fmt ''), L 16,
                  H WAVE_FORMAT_PCM, H (nchannels w4), L (framerate w4),
                  L (nchannels w4 * framerate w4 * sampwidth w4),
                  H (nchannels w4 * sampwidth w4), H (sampwidth w4 * 8),
                  S4 (ascii ''data'')] of
               Inl e \<Rightarrow> (Some e, w4)
             | Inr header \<Rightarrow>
                 let w5 = w4\<lparr>wfile := bio_write header (wfile w4)\<rparr>;
                     w6 = w5\<lparr>data_length_pos := Some (bio_tell (wfile w5))\<rparr>
                 in (case struct_pack [L (datalength w6)] of
                       Inl e \<Rightarrow> (Some e, w6)
                     | Inr b \<Rightarrow>
                         (None, w6\<lparr>wfile := bio_write b (wfile w6), headerwritten := True\<rparr>)))"

definition ensure_header_written :: "nat \<Rightarrow> wave_write call" where
  "ensure_header_written datasize w =
     (if \<not> headerwritten w then
        if nchannels w = 0 then (Some (WaveError ''# channels not specified''), w)
        else if sampwidth w = 0 then (Some (WaveError ''sample width not specified''), w)
        else if framerate w = 0 then (Some (WaveError ''sampling rate not specified''), w)
        else write_header datasize w
      else (None, w))"

definition patchheader :: "wave_write call" where
  "patchheader w =
     (if \<not> headerwritten w then (Some AssertionError, w)
      else if datawritten w = datalength w then (None, w)
      else
        let curpos = bio_tell (wfile w) in
        case form_length_pos w of
          None \<Rightarrow> (Some AttributeError, w)
        | Some flp \<Rightarrow>
            let w1 = w\<lparr>wfile := bio_seek flp (wfile w)\<rparr> in
            (case struct_pack [L (36 + datawritten w1)] of
               Inl e \<Rightarrow> (Some e, w1)
             | Inr b1 \<Rightarrow>
                 let w2 = w1\<lparr>wfile := bio_write b1 (wfile w1)\<rparr> in
                 (case data_length_pos w2 of
                    None \<Rightarrow> (Some AttributeError, w2)
                  | Some dlp \<Rightarrow>
                      let w3 = w2\<lparr>wfile := bio_seek dlp (wfile w2)\<rparr> in
                      (case struct_pack [L (datawritten w3)] of
                         Inl e \<Rightarrow> (Some e, w3)
                       | Inr b2 \<Rightarrow>
                           let w4 = w3\<lparr>wfile := bio_write b2 (wfile w3)\<rparr>;
                               w5 = w4\<lparr>wfile := bio_seek curpos (wfile w4)\<rparr>
                           in (None, w5\<lparr>datalength := datawritten w5\<rparr>)))))"

text \<open>
  \<^verbatim>\<open>_byteswap(data, width)\<close> reverses each group of \<open>width\<close> bytes. Its inner loop writes
  the mirror position of the group first, so a last group shorter than \<open>width\<close> raises
  \<^verbatim>\<open>IndexError\<close>; a step of zero is refused by \<^verbatim>\<open>range\<close>.
\<close>

function byteswap :: "bytes \<Rightarrow> nat \<Rightarrow> exn + bytes" where
  "byteswap data width =
     (if width = 0 then Inl (ValueError ''range() arg 3 must not be zero'')
      else if data = [] then Inr []
      else if length data < width then Inl IndexError
      else (case byteswap (drop width data) width of
              Inl e \<Rightarrow> Inl e
            | Inr r \<Rightarrow> Inr (rev (take width data) @ r)))"
  by pat_completeness auto
termination
  by (relation "measure (\<lambda>(data, width). length data)") auto

declare byteswap.simps [simp del]

text \<open>
  \<^verbatim>\<open>writeframesraw\<close>. The argument is \<open>None\<close> when the caller passes Python's \<^verbatim>\<open>None\<close>
  instead of a bytes object: \<^verbatim>\<open>memoryview(None)\<close> raises \<^verbatim>\<open>TypeError\<close>. The byte order
  of the host (\<^verbatim>\<open>sys.byteorder\<close>) is a parameter.
\<close>

definition writeframesraw :: "byteorder \<Rightarrow> bytes option \<Rightarrow> wave_write call" where
  "writeframesraw bo data_arg w =
     (case data_arg of
        None \<Rightarrow> (Some TypeError, w)
      | Some data \<Rightarrow>
          (case ensure_header_written (length data) w of
             (Some e, w1) \<Rightarrow> (Some e, w1)
           | (None, w1) \<Rightarrow>
               let n = length data div (sampwidth w1 * nchannels w1) in
               (case (if sampwidth w1 \<noteq> 1 \<and> bo = Big then byteswap data (sampwidth w1)
                      else Inr data) of
                  Inl e \<Rightarrow> (Some e, w1)
                | Inr data' \<Rightarrow>
                    (None, w1\<lparr>wfile := bio_write data' (wfile w1),
                              datawritten := datawritten w1 + length data',
                              nframeswritten := nframeswritten w1 + n\<rparr>))))"

definition writeframes :: "byteorder \<Rightarrow> bytes option \<Rightarrow> wave_write call" where
  "writeframes bo data_arg w =
     (case writeframesraw bo data_arg w of
        (Some e, w1) \<Rightarrow> (Some e, w1)
      | (None, w1) \<Rightarrow> if datalength w1 \<noteq> datawritten w1 then patchheader w1 else (None, w1))"

text \<open>\<^verbatim>\<open>close\<close>: the \<^verbatim>\<open>finally\<close> clause resets \<^verbatim>\<open>self._file\<close> on every path.\<close>

definition close :: "wave_write call" where
  "close w =
     (let r = (if \<not> file_is_None w
               then seq (ensure_header_written 0)
                      (\<lambda>w1. if datalength w1 \<noteq> datawritten w1 then patchheader w1 else (None, w1)) w
               else (None, w))
      in (fst r, (snd r)\<lparr>file_is_None := True\<rparr>))"

text \<open>
  \<^verbatim>\<open>with wave.open(f, 'wb') as wav_file: body\<close>. \<^verbatim>\<open>__exit__\<close> calls \<^verbatim>\<open>close\<close> whether
  the body raised or not and returns \<^verbatim>\<open>None\<close>: an exception of \<^verbatim>\<open>close\<close> replaces the
  one of the body, otherwise the one of the body goes on.
\<close>

definition with_wave_open :: "bytesio \<Rightarrow> wave_write call \<Rightarrow> exn option \<times> wave_write" where
  "with_wave_open f body =
     (case body (initfp f) of
        (e, w1) \<Rightarrow>
          (case close w1 of
             (Some e', w2) \<Rightarrow> (Some e', w2)
           | (None, w2) \<Rightarrow> (e, w2)))"

text \<open>
  Lines 280-289: the buffer, the \<^verbatim>\<open>with\<close> statement with its four calls, and the seek to
  the start. The result is the exception that leaves the block, or the buffer.
\<close>

definition wave_wrap :: "byteorder \<Rightarrow> bytes option \<Rightarrow> exn + bytesio" where
  "wave_wrap bo audio_data =
     (let audio_buffer = BytesIO in
      case with_wave_open audio_buffer
             (seq (setnchannels 1)
               (seq (setsampwidth 2)
                 (seq (setframerate 24000)
                   (writeframes bo audio_data)))) of
        (Some e, w) \<Rightarrow> Inl e
      | (None, w) \<Rightarrow> Inr (bio_seek 0 (wfile w)))"

subsection \<open>\<^verbatim>\<open>wave._Chunk\<close> and \<^verbatim>\<open>wave.Wave_read\<close> (the reader of the same module)\<close>

text \<open>
  The repository has no decoder of its own. The decoder against which the container is
  judged is the reader of the module that wrote it: \<^verbatim>\<open>wave.open(f, 'rb')\<close>, embedded
  here as it is written in CPython 3.11 (later versions also accept the format tag
  \<^verbatim>\<open>WAVE_FORMAT_EXTENSIBLE\<close>, which the writer never emits).

  A \<^verbatim>\<open>_Chunk\<close> reads from any object with \<^verbatim>\<open>read\<close>, \<^verbatim>\<open>seek\<close> and \<^verbatim>\<open>tell\<close>: the
  RIFF chunk reads from the \<^verbatim>\<open>BytesIO\<close>, and every inner chunk reads from the RIFF chunk.
  The three methods of the underlying object are a parameter; \<open>cfile\<close> is that object.
  No chunk of this flow is ever closed, and both kinds of underlying object can tell their
  position, so \<^verbatim>\<open>closed\<close> is false and \<^verbatim>\<open>seekable\<close> is true throughout; \<^verbatim>\<open>align\<close> has
  its default, true.
\<close>

record 'f fileops =
  op_read :: "nat \<Rightarrow> 'f \<Rightarrow> bytes \<times> 'f"
  op_seek :: "int \<Rightarrow> nat \<Rightarrow> 'f \<Rightarrow> exn + 'f"
  op_tell :: "'f \<Rightarrow> nat"

definition bio_seek_whence :: "int \<Rightarrow> nat \<Rightarrow> bytesio \<Rightarrow> exn + bytesio" where
  "bio_seek_whence p whence f =
     (if whence = 0 then
        (if p < 0 then Inl (ValueError ''negative seek value'') else Inr (f\<lparr>pos := nat p\<rparr>))
      else if whence = 1 then Inr (f\<lparr>pos := nat (max 0 (int (pos f) + p))\<rparr>)
      else if whence = 2 then Inr (f\<lparr>pos := nat (max 0 (int (length (buf f)) + p))\<rparr>)
      else Inl (ValueError ''invalid whence''))"

definition bio_ops :: "bytesio fileops" where
  "bio_ops = \<lparr>op_read = bio_read, op_seek = bio_seek_whence, op_tell = bio_tell\<rparr>"

datatype 'f chunk =
  Chunk_obj (cfile: 'f) (chunkname: bytes) (chunksize: nat) (size_read: nat) (offset: nat)

text \<open>The two attributes that the methods assign: the underlying object and \<^verbatim>\<open>size_read\<close>.\<close>

definition advance :: "'f \<Rightarrow> nat \<Rightarrow> 'f chunk \<Rightarrow> 'f chunk" where
  "advance f n c = Chunk_obj f (chunkname c) (chunksize c) n (offset c)"

text \<open>\<^verbatim>\<open>_Chunk(file, bigendian=0)\<close>: the name and the little-endian size.\<close>

definition Chunk :: "'f fileops \<Rightarrow> 'f \<Rightarrow> exn + 'f chunk" where
  "Chunk ops f =
     (case op_read ops 4 f of
        (name, f1) \<Rightarrow>
          if length name < 4 then Inl EOFError
          else (case op_read ops 4 f1 of
                  (sz, f2) \<Rightarrow>
                    (case unpack_le 4 sz of
                       Inl e \<Rightarrow> Inl EOFError
                     | Inr n \<Rightarrow>
                         Inr (Chunk_obj f2 name n 0 (op_tell ops f2)))))"

definition chunk_read :: "'f fileops \<Rightarrow> nat \<Rightarrow> 'f chunk \<Rightarrow> bytes \<times> 'f chunk" where
  "chunk_read ops n c =
     (if size_read c \<ge> chunksize c then ([], c)
      else
        let n' = (if n > chunksize c - size_read c then chunksize c - size_read c else n) in
        case op_read ops n' (cfile c) of
          (data, f1) \<Rightarrow>
            let c1 = advance f1 (size_read c + length data) c in
            if size_read c1 = chunksize c1 \<and> odd (chunksize c1) then
              (case op_read ops 1 (cfile c1) of
                 (dummy, f2) \<Rightarrow>
                   (data, advance f2 (size_read c1 + length dummy) c1))
            else (data, c1))"

definition chunk_seek :: "'f fileops \<Rightarrow> int \<Rightarrow> nat \<Rightarrow> 'f chunk \<Rightarrow> exn + 'f chunk" where
  "chunk_seek ops p whence c =
     (let p' = (if whence = 1 then p + int (size_read c)
                else if whence = 2 then p + int (chunksize c)
                else p)
      in if p' < 0 \<or> p' > int (chunksize c) then Inl RuntimeError
         else (case op_seek ops (int (offset c) + p') 0 (cfile c) of
                 Inl e \<Rightarrow> Inl e
               | Inr f1 \<Rightarrow> Inr (advance f1 (nat p') c)))"

definition chunk_tell :: "'f chunk \<Rightarrow> nat" where
  "chunk_tell c = size_read c"

definition chunk_ops :: "'f fileops \<Rightarrow> 'f chunk fileops" where
  "chunk_ops ops = \<lparr>op_read = chunk_read ops, op_seek = chunk_seek ops, op_tell = chunk_tell\<rparr>"

text \<open>
  \<^verbatim>\<open>skip\<close>: one relative seek of the underlying object; when that raises \<^verbatim>\<open>OSError\<close>,
  the rest of the chunk is read and thrown away, 8192 bytes at a time.
\<close>

lemma chunk_read_progress:
  assumes "chunk_read ops n c = (d, c1)" and "d \<noteq> []"
  shows "chunksize c1 = chunksize c \<and> size_read c < size_read c1"
proof -
  from assms(2) have "0 < length d" by simp
  with assms(1) show ?thesis
    by (auto simp: chunk_read_def advance_def Let_def split: prod.splits if_splits)
qed

function skip_by_reading :: "'f fileops \<Rightarrow> 'f chunk \<Rightarrow> exn + 'f chunk" where
  "skip_by_reading ops c =
     (if size_read c < chunksize c then
        (case chunk_read ops (min 8192 (chunksize c - size_read c)) c of
           (dummy, c1) \<Rightarrow> if dummy = [] then Inl EOFError else skip_by_reading ops c1)
      else Inr c)"
  by pat_completeness auto
termination
proof (relation "measure (\<lambda>(ops, c). Suc (chunksize c) - size_read c)", goal_cases)
  case 1
  show ?case by simp
next
  case 2
  then show ?case
    by (auto dest: chunk_read_progress chunk_read_progress [OF sym])
qed

declare skip_by_reading.simps [simp del]

definition chunk_skip :: "'f fileops \<Rightarrow> 'f chunk \<Rightarrow> exn + 'f chunk" where
  "chunk_skip ops c =
     (let n = int (chunksize c) - int (size_read c) + (if odd (chunksize c) then 1 else 0)
      in case op_seek ops n 1 (cfile c) of
           Inr f1 \<Rightarrow> Inr (advance f1 (nat (int (size_read c) + n)) c)
         | Inl e \<Rightarrow> if e = OSError then skip_by_reading ops c else Inl e)"

text \<open>
  The attributes of a \<^verbatim>\<open>Wave_read\<close>. \<open>riff_chunk\<close> is \<^verbatim>\<open>self._file\<close>. An inner chunk
  holds the RIFF chunk it reads from, so after work on an inner chunk the current RIFF
  chunk is the \<open>cfile\<close> of that inner chunk. The format attributes do not exist before the
  format chunk has been read; they are zero here until then.
\<close>

record wave_read =
  riff_chunk :: "bytesio chunk"
  rd_nchannels :: nat
  rd_sampwidth :: nat
  rd_framerate :: nat
  rd_framesize :: nat
  rd_nframes :: nat
  fmt_chunk_read :: bool
  data_chunk :: "bytesio chunk chunk option"
  data_seek_needed :: bool
  soundpos :: nat

definition inner_ops :: "bytesio chunk fileops" where
  "inner_ops = chunk_ops bio_ops"

definition read_fmt_chunk ::
    "bytesio chunk chunk \<Rightarrow> wave_read \<Rightarrow> exn + (bytesio chunk chunk \<times> wave_read)" where
  "read_fmt_chunk c r =
     (case chunk_read inner_ops 14 c of
        (b, c1) \<Rightarrow>
          if length b < 14 then Inl EOFError
          else
            let wFormatTag = le_val (take 2 b);
                r1 = r\<lparr>rd_nchannels := le_val (take 2 (drop 2 b)),
                       rd_framerate := le_val (take 4 (drop 4 b))\<rparr>
            in if wFormatTag = WAVE_FORMAT_PCM then
                 (case chunk_read inner_ops 2 c1 of
                    (b2, c2) \<Rightarrow>
                      (case unpack_le 2 b2 of
                         Inl e \<Rightarrow> Inl EOFError
                       | Inr bits \<Rightarrow>
                           let r2 = r1\<lparr>rd_sampwidth := (bits + 7) div 8\<rparr> in
                           if rd_sampwidth r2 = 0 then Inl (WaveError ''bad sample width'')
                           else if rd_nchannels r2 = 0 then Inl (WaveError ''bad # of channels'')
                           else Inr (c2, r2\<lparr>rd_framesize := rd_nchannels r2 * rd_sampwidth r2\<rparr>)))
               else Inl (WaveError ''unknown format''))"

text \<open>
  What the termination of the chunk loop rests on: a chunk never reads past its size (but
  for the pad byte of an odd size), and reading or skipping an inner chunk only moves the
  RIFF chunk forward, by at least the bytes it returned.
\<close>

definition chunk_inv :: "'f chunk \<Rightarrow> bool" where
  "chunk_inv c = (size_read c \<le> chunksize c + (if odd (chunksize c) then 1 else 0))"

lemma bio_read_length:
  assumes "bio_read n f = (d, f')"
  shows "length d \<le> n"
  using assms by (auto simp: bio_read_def Let_def split: if_splits)

lemma outer_read:
  assumes "chunk_read bio_ops n c = (d, c')"
  shows "length d \<le> n \<and> chunksize c' = chunksize c \<and> size_read c + length d \<le> size_read c'"
  using assms
  by (auto simp: chunk_read_def advance_def bio_ops_def Let_def split: if_splits prod.splits dest!: bio_read_length)

lemma inner_read:
  assumes "chunk_read inner_ops n c = (d, c')"
  shows "chunksize c' = chunksize c \<and> chunksize (cfile c') = chunksize (cfile c) \<and>
         size_read (cfile c) + length d \<le> size_read (cfile c') \<and>
         (chunk_inv c \<longrightarrow> chunk_inv c')"
proof (cases "size_read c \<ge> chunksize c")
  case True
  with assms show ?thesis by (simp add: chunk_read_def)
next
  case False
  define n' where "n' = (if n > chunksize c - size_read c then chunksize c - size_read c else n)"
  obtain data f1 where r1: "chunk_read bio_ops n' (cfile c) = (data, f1)"
    by (cases "chunk_read bio_ops n' (cfile c)")
  obtain dummy f2 where r2: "chunk_read bio_ops 1 f1 = (dummy, f2)"
    by (cases "chunk_read bio_ops 1 f1")
  note o1 = outer_read [OF r1] and o2 = outer_read [OF r2]
  have n': "n' \<le> chunksize c - size_read c" by (simp add: n'_def)
  from assms False r1 r2 have
    "d = data \<and> chunksize c' = chunksize c \<and>
     ((cfile c' = f1 \<and> size_read c' = size_read c + length data \<and>
         \<not> (size_read c + length data = chunksize c \<and> odd (chunksize c))) \<or>
      (cfile c' = f2 \<and> size_read c' = size_read c + length data + length dummy \<and>
         size_read c + length data = chunksize c \<and> odd (chunksize c)))"
    by (auto simp: chunk_read_def advance_def inner_ops_def chunk_ops_def Let_def n'_def split: if_splits)
  with o1 o2 n' False show ?thesis
    by (auto simp: chunk_inv_def)
qed

lemma Chunk_inner:
  assumes "Chunk inner_ops oc = Inr c"
  shows "size_read c = 0 \<and> chunksize (cfile c) = chunksize oc \<and> size_read oc + 8 \<le> size_read (cfile c)"
proof -
  obtain name f1 where r1: "chunk_read bio_ops 4 oc = (name, f1)"
    by (cases "chunk_read bio_ops 4 oc")
  obtain sz f2 where r2: "chunk_read bio_ops 4 f1 = (sz, f2)"
    by (cases "chunk_read bio_ops 4 f1")
  note o1 = outer_read [OF r1] and o2 = outer_read [OF r2]
  from assms r1 r2 have "length name \<ge> 4 \<and> length sz \<ge> 4 \<and> cfile c = f2 \<and> size_read c = 0"
    by (auto simp: Chunk_def inner_ops_def chunk_ops_def unpack_le_def split: if_splits sum.splits)
  with o1 o2 show ?thesis by auto
qed

lemma read_fmt_chunk_facts:
  assumes "read_fmt_chunk c r = Inr (c', r')" and "chunk_inv c"
  shows "chunk_inv c' \<and> chunksize (cfile c') = chunksize (cfile c) \<and>
         size_read (cfile c) \<le> size_read (cfile c')"
proof -
  obtain b c1 where r1: "chunk_read inner_ops 14 c = (b, c1)"
    by (cases "chunk_read inner_ops 14 c")
  obtain b2 c2 where r2: "chunk_read inner_ops 2 c1 = (b2, c2)"
    by (cases "chunk_read inner_ops 2 c1")
  note i1 = inner_read [OF r1] and i2 = inner_read [OF r2]
  from assms(1) r1 r2 have "c' = c2"
    by (auto simp: read_fmt_chunk_def Let_def split: if_splits sum.splits)
  with i1 i2 assms(2) show ?thesis by auto
qed

lemma chunk_skip_inner:
  assumes "chunk_skip inner_ops c = Inr c2" and "chunk_inv c"
  shows "chunksize (cfile c2) = chunksize (cfile c) \<and>
         size_read (cfile c) \<le> size_read (cfile c2) \<and>
         size_read (cfile c2) \<le> chunksize (cfile c2)"
  using assms
  by (auto simp: chunk_skip_def advance_def chunk_inv_def inner_ops_def chunk_ops_def chunk_seek_def
      bio_ops_def bio_seek_whence_def Let_def split: if_splits sum.splits)

text \<open>
  The loop of \<^verbatim>\<open>initfp\<close> over the chunks of the RIFF chunk. It ends at the data chunk,
  or with \<^verbatim>\<open>break\<close> when no further chunk header can be read (\<^verbatim>\<open>EOFError\<close>).
\<close>

function read_chunks :: "wave_read \<Rightarrow> exn + wave_read" where
  "read_chunks r =
     (case Chunk inner_ops (riff_chunk r) of
        Inl e \<Rightarrow> if e = EOFError then Inr (r\<lparr>data_seek_needed := True\<rparr>) else Inl e
      | Inr c \<Rightarrow>
          if chunkname c = ascii ''fmt '' then
            (case read_fmt_chunk c (r\<lparr>data_seek_needed := True\<rparr>) of
               Inl e \<Rightarrow> Inl e
             | Inr (c1, r1) \<Rightarrow>
                 (case chunk_skip inner_ops c1 of
                    Inl e \<Rightarrow> Inl e
                  | Inr c2 \<Rightarrow>
                      read_chunks (r1\<lparr>fmt_chunk_read := True, riff_chunk := cfile c2\<rparr>)))
          else if chunkname c = ascii ''data'' then
            (if \<not> fmt_chunk_read r then Inl (WaveError ''data chunk before fmt chunk'')
             else if rd_framesize r = 0 then Inl ZeroDivisionError
             else Inr (r\<lparr>riff_chunk := cfile c, data_chunk := Some c,
                         rd_nframes := chunksize c div rd_framesize r,
                         data_seek_needed := False\<rparr>))
          else
            (case chunk_skip inner_ops c of
               Inl e \<Rightarrow> Inl e
             | Inr c2 \<Rightarrow> read_chunks (r\<lparr>data_seek_needed := True, riff_chunk := cfile c2\<rparr>)))"
  by pat_completeness auto
termination
proof (relation "measure (\<lambda>r. chunksize (riff_chunk r) - size_read (riff_chunk r))", goal_cases)
  case 1
  show ?case by simp
next
  case (2 r c x c1 r1 c2)
  from Chunk_inner [OF 2(1)] have c: "chunk_inv c"
    and k: "chunksize (cfile c) = chunksize (riff_chunk r)"
    and p: "size_read (riff_chunk r) + 8 \<le> size_read (cfile c)"
    by (simp_all add: chunk_inv_def)
  from 2 have "read_fmt_chunk c (r\<lparr>data_seek_needed := True\<rparr>) = Inr (c1, r1)"
    by simp
  from read_fmt_chunk_facts [OF this c] chunk_skip_inner [OF 2(5)] k p show ?case
    by auto
next
  case (3 r c c2)
  from Chunk_inner [OF 3(1)] have c: "chunk_inv c"
    and k: "chunksize (cfile c) = chunksize (riff_chunk r)"
    and p: "size_read (riff_chunk r) + 8 \<le> size_read (cfile c)"
    by (simp_all add: chunk_inv_def)
  from chunk_skip_inner [OF 3(4) c] k p show ?case
    by auto
qed

declare read_chunks.simps [simp del]

text \<open>\<^verbatim>\<open>Wave_read(f)\<close> for a file object: \<^verbatim>\<open>initfp\<close>.\<close>

definition Wave_read :: "bytesio \<Rightarrow> exn + wave_read" where
  "Wave_read f =
     (case Chunk bio_ops f of
        Inl e \<Rightarrow> Inl e
      | Inr riff \<Rightarrow>
          if chunkname riff \<noteq> ascii ''RIFF''
          then Inl (WaveError ''file does not start with RIFF id'')
          else (case chunk_read bio_ops 4 riff of
                  (b, riff1) \<Rightarrow>
                    if b \<noteq> ascii ''WAVE'' then Inl (WaveError ''not a WAVE file'')
                    else (case read_chunks
                                 \<lparr>riff_chunk = riff1, rd_nchannels = 0, rd_sampwidth = 0,
                                  rd_framerate = 0, rd_framesize = 0, rd_nframes = 0,
                                  fmt_chunk_read = False, data_chunk = None,
                                  data_seek_needed = True, soundpos = 0\<rparr> of
                            Inl e \<Rightarrow> Inl e
                          | Inr r \<Rightarrow>
                              if \<not> fmt_chunk_read r \<or> data_chunk r = None
                              then Inl (WaveError ''fmt chunk and/or data chunk missing'')
                              else Inr r)))"

text \<open>\<^verbatim>\<open>readframes(nframes)\<close>: the frames and the reader after the call.\<close>

definition readframes :: "byteorder \<Rightarrow> nat \<Rightarrow> wave_read \<Rightarrow> exn + (bytes \<times> wave_read)" where
  "readframes bo n r =
     (case data_chunk r of
        None \<Rightarrow> Inl AttributeError
      | Some dc \<Rightarrow>
          (case (if data_seek_needed r then
                   (case chunk_seek inner_ops 0 0 dc of
                      Inl e \<Rightarrow> Inl e
                    | Inr dc1 \<Rightarrow>
                        if soundpos r * rd_framesize r \<noteq> 0
                        then chunk_seek inner_ops (int (soundpos r * rd_framesize r)) 0 dc1
                        else Inr dc1)
                 else Inr dc) of
             Inl e \<Rightarrow> Inl e
           | Inr dc2 \<Rightarrow>
               let r1 = r\<lparr>data_chunk := Some dc2, data_seek_needed := False\<rparr> in
               if n = 0 then Inr ([], r1)
               else (case chunk_read inner_ops (n * rd_framesize r1) dc2 of
                       (data, dc3) \<Rightarrow>
                         (case (if rd_sampwidth r1 \<noteq> 1 \<and> bo = Big
                                then byteswap data (rd_sampwidth r1) else Inr data) of
                            Inl e \<Rightarrow> Inl e
                          | Inr data' \<Rightarrow>
                              if rd_nchannels r1 * rd_sampwidth r1 = 0 then Inl ZeroDivisionError
                              else Inr (data',
                                     r1\<lparr>data_chunk := Some dc3,
                                        soundpos := soundpos r1 +
                                          length data' div (rd_nchannels r1 * rd_sampwidth r1)\<rparr>)))))"

text \<open>
  Decoding a container: open it for reading, take the three format parameters
  (\<^verbatim>\<open>getnchannels\<close>, \<^verbatim>\<open>getsampwidth\<close>, \<^verbatim>\<open>getframerate\<close>) and read all its frames
  (\<^verbatim>\<open>readframes(getnframes())\<close>). \<open>declared_data_length\<close> is the size that the header of
  the data chunk declares, as the reader finds it.
\<close>

definition wave_decode :: "byteorder \<Rightarrow> bytes \<Rightarrow> exn + ((nat \<times> nat \<times> nat) \<times> bytes)" where
  "wave_decode bo container =
     (case Wave_read \<lparr>buf = container, pos = 0\<rparr> of
        Inl e \<Rightarrow> Inl e
      | Inr r \<Rightarrow>
          (case readframes bo (rd_nframes r) r of
             Inl e \<Rightarrow> Inl e
           | Inr (frames, r1) \<Rightarrow>
               Inr ((rd_nchannels r, rd_sampwidth r, rd_framerate r), frames)))"

definition declared_data_length :: "bytes \<Rightarrow> exn + nat" where
  "declared_data_length container =
     (case Wave_read \<lparr>buf = container, pos = 0\<rparr> of
        Inl e \<Rightarrow> Inl e
      | Inr r \<Rightarrow> (case data_chunk r of None \<Rightarrow> Inl AttributeError | Some dc \<Rightarrow> Inr (chunksize dc)))"

subsection \<open>The remote service, the file system and the user interface\<close>

text \<open>
  What the program does to the outside is kept in a record: the files on disk, the
  clients constructed, the requests sent with \<^verbatim>\<open>client.models.generate_content\<close>, the
  lines printed on the console, the messages shown by Streamlit and the story kept in
  \<^verbatim>\<open>st.session_state\<close>. What the outside answers is a parameter of the model, the
  record \<open>outside\<close>: the environment variables after \<^verbatim>\<open>load_dotenv\<close>, the answer of
  the remote service to a request, and, for every call into the operating system or into
  Streamlit that can fail, whether it raises. Among these are the two ways in which the
  audio function writes to the console: \<^verbatim>\<open>print\<close> of a line that starts with a cross
  mark, which a standard output that cannot encode the mark refuses with
  \<^verbatim>\<open>UnicodeEncodeError\<close>, and \<^verbatim>\<open>traceback.print_exc\<close>. The messages of the user
  interface are kept by their kind and the plain text of their first sentence.
\<close>

type_synonym path = string

datatype blob = Blob "bytes option"

datatype part = Part_without_inline_data | Part "blob option"

datatype content = Content (parts: "part list option")

datatype candidate = Candidate (content: "content option")

datatype response = Response (resp_text: "string option") (candidates: "candidate list option")

datatype 'img request = Request (model: string) (images: "'img list") (prompt: string)

datatype console_line = No_inline_data_found | Error_generating_audio exn | Traceback exn

datatype ui_msg =
    St_warning string
  | St_error string
  | St_audio bytes string
  | St_success string

record 'img world =
  files :: "path \<rightharpoonup> bytes"
  clients :: "string list"
  requests :: "'img request list"
  console :: "console_line list"
  ui :: "ui_msg list"
  session_story :: "string option"

record ('upl, 'img) outside =
  getenv :: "string \<rightharpoonup> string"
  sys_byteorder :: byteorder
  image_open :: "'upl \<Rightarrow> exn + 'img"
  generate_content :: "'img request \<Rightarrow> exn + response"
  tmp_create :: "exn + path"
  tmp_write :: "exn option"
  tmp_flush :: "exn option"
  tmp_close :: "exn option"
  stdout_print :: "exn option"
  traceback_print :: "exn option"
  st_image :: "exn option"
  file_read :: "exn option"
  st_audio :: "exn option"
  os_unlink :: "exn option"

text \<open>Python's truth value of a string that may be \<^verbatim>\<open>None\<close>.\<close>

definition truthy :: "string option \<Rightarrow> bool" where
  "truthy s = (case s of None \<Rightarrow> False | Some t \<Rightarrow> t \<noteq> [])"

subsection \<open>Loading the module (Story_Generation.py lines 51-133)\<close>

definition model_name_1 :: string where
  "model_name_1 = ''gemini-2.5-pro''"

definition model_name_2 :: string where
  "model_name_2 = ''gemini-2.5-flash-preview-tts''"

text \<open>
  The statements at module level: read the key, raise \<^verbatim>\<open>ValueError\<close> when it is missing
  or empty, construct the client. The result is the exception that ends the import, or
  the key that the client holds.
\<close>

definition import_Story_Generation ::
    "('upl, 'img) outside \<Rightarrow> 'img world \<Rightarrow> (exn + string) \<times> 'img world" where
  "import_Story_Generation env w =
     (let api_key = getenv env ''GOOGLE_API_KEY'' in
      if \<not> truthy api_key then (Inl (ValueError ''!!!API KEY NOT FOUND!!!''), w)
      else (case api_key of
              None \<Rightarrow> (Inl (ValueError ''!!!API KEY NOT FOUND!!!''), w)
            | Some k \<Rightarrow> (Inr k, w\<lparr>clients := clients w @ [k]\<rparr>)))"

subsection \<open>\<^verbatim>\<open>generate_story_from_images\<close> (lines 211-217)\<close>

definition generate_story_from_images ::
    "('upl, 'img) outside \<Rightarrow> 'img list \<Rightarrow> string \<Rightarrow> 'img world \<Rightarrow>
     (exn + string option) \<times> 'img world" where
  "generate_story_from_images env imgs story_type w =
     (let rq = Request model_name_1 imgs (story_prompt story_type);
          w1 = w\<lparr>requests := requests w @ [rq]\<rparr>
      in case generate_content env rq of
           Inl e \<Rightarrow> (Inl e, w1)
         | Inr response \<Rightarrow> (Inr (resp_text response), w1))"

subsection \<open>\<^verbatim>\<open>generate_audio_from_generated_story\<close> (lines 248-306)\<close>

text \<open>\<^verbatim>\<open>xs[0]\<close> for a value that may be \<^verbatim>\<open>None\<close>, an empty list or a list.\<close>

definition subscript0 :: "'a list option \<Rightarrow> exn + 'a" where
  "subscript0 xs =
     (case xs of
        None \<Rightarrow> Inl TypeError
      | Some [] \<Rightarrow> Inl IndexError
      | Some (x # _) \<Rightarrow> Inr x)"

text \<open>Line 270: \<^verbatim>\<open>response.candidates[0].content.parts[0]\<close>.\<close>

definition first_part :: "response \<Rightarrow> exn + part" where
  "first_part response =
     (case subscript0 (candidates response) of
        Inl e \<Rightarrow> Inl e
      | Inr cand \<Rightarrow>
          (case content cand of
             None \<Rightarrow> Inl AttributeError
           | Some c \<Rightarrow> subscript0 (parts c)))"

text \<open>
  Lines 292-297: the temporary file is created with \<^verbatim>\<open>delete=False\<close>, so it stays on
  disk when it is closed, and also when a later step raises.
\<close>

definition write_temp_file ::
    "('upl, 'img) outside \<Rightarrow> bytes \<Rightarrow> 'img world \<Rightarrow> (exn + path) \<times> 'img world" where
  "write_temp_file env contents w =
     (case tmp_create env of
        Inl e \<Rightarrow> (Inl e, w)
      | Inr name \<Rightarrow>
          let w1 = w\<lparr>files := (files w)(name \<mapsto> [])\<rparr> in
          (case tmp_write env of
             Some e \<Rightarrow> (Inl e, w1)
           | None \<Rightarrow>
               (case tmp_flush env of
                  Some e \<Rightarrow> (Inl e, w1)
                | None \<Rightarrow>
                    let w2 = w1\<lparr>files := (files w1)(name \<mapsto> contents)\<rparr> in
                    (case tmp_close env of
                       Some e \<Rightarrow> (Inl e, w2)
                     | None \<Rightarrow> (Inr name, w2)))))"

text \<open>\<^verbatim>\<open>print\<close> of one line (lines 299 and 303), and \<^verbatim>\<open>traceback.print_exc()\<close> (line 305).\<close>

definition print_line ::
    "('upl, 'img) outside \<Rightarrow> console_line \<Rightarrow> 'img world \<Rightarrow> exn option \<times> 'img world" where
  "print_line env l w =
     (case stdout_print env of
        Some e \<Rightarrow> (Some e, w)
      | None \<Rightarrow> (None, w\<lparr>console := console w @ [l]\<rparr>))"

definition print_exc ::
    "('upl, 'img) outside \<Rightarrow> exn \<Rightarrow> 'img world \<Rightarrow> exn option \<times> 'img world" where
  "print_exc env e w =
     (case traceback_print env of
        Some e' \<Rightarrow> (Some e', w)
      | None \<Rightarrow> (None, w\<lparr>console := console w @ [Traceback e]\<rparr>))"

text \<open>The body of the \<^verbatim>\<open>try\<close> statement, lines 254-300.\<close>

definition audio_try_body ::
    "('upl, 'img) outside \<Rightarrow> string \<Rightarrow> 'img world \<Rightarrow> (exn + path option) \<times> 'img world" where
  "audio_try_body env story_text w =
     (let rq = Request model_name_2 [] story_text;
          w1 = w\<lparr>requests := requests w @ [rq]\<rparr>
      in case generate_content env rq of
           Inl e \<Rightarrow> (Inl e, w1)
         | Inr response \<Rightarrow>
             (case first_part response of
                Inl e \<Rightarrow> (Inl e, w1)
              | Inr Part_without_inline_data \<Rightarrow>
                  (case print_line env No_inline_data_found w1 of
                     (Some e, w2) \<Rightarrow> (Inl e, w2)
                   | (None, w2) \<Rightarrow> (Inr None, w2))
              | Inr (Part None) \<Rightarrow> (Inl AttributeError, w1)
              | Inr (Part (Some (Blob audio_data))) \<Rightarrow>
                  (case wave_wrap (sys_byteorder env) audio_data of
                     Inl e \<Rightarrow> (Inl e, w1)
                   | Inr audio_buffer \<Rightarrow>
                       (case write_temp_file env (getvalue audio_buffer) w1 of
                          (Inl e, w2) \<Rightarrow> (Inl e, w2)
                        | (Inr name, w2) \<Rightarrow> (Inr (Some name), w2)))))"

text \<open>
  The whole function: \<^verbatim>\<open>except Exception\<close> catches what is an \<^verbatim>\<open>Exception\<close>, prints the
  error and the traceback and returns \<^verbatim>\<open>None\<close>; anything else goes on to the caller
  (\<open>Inl\<close>), and so does an exception that one of the two prints of the handler raises.
\<close>

definition generate_audio_from_generated_story ::
    "('upl, 'img) outside \<Rightarrow> string \<Rightarrow> 'img world \<Rightarrow> (exn + path option) \<times> 'img world" where
  "generate_audio_from_generated_story env story_text w =
     (case audio_try_body env story_text w of
        (Inr r, w1) \<Rightarrow> (Inr r, w1)
      | (Inl e, w1) \<Rightarrow>
          if is_Exception e then
            (case print_line env (Error_generating_audio e) w1 of
               (Some e', w2) \<Rightarrow> (Inl e', w2)
             | (None, w2) \<Rightarrow>
                 (case print_exc env e w2 of
                    (Some e', w3) \<Rightarrow> (Inl e', w3)
                  | (None, w3) \<Rightarrow> (Inr None, w3)))
          else (Inl e, w1))"

subsection \<open>The script app.py\<close>

text \<open>What the user did in the sidebar before this run of the script.\<close>

record 'upl inputs =
  uploaded_images :: "'upl list"
  story_type :: string
  generate_button :: bool
  generate_audio_button :: bool

text \<open>Lines 177-179: more than ten uploads are cut to the first ten, with a warning.\<close>

definition limit_uploads :: "'upl list \<Rightarrow> 'img world \<Rightarrow> 'upl list \<times> 'img world" where
  "limit_uploads uploaded w =
     (if uploaded \<noteq> [] \<and> length uploaded > 10
      then (take 10 uploaded,
            w\<lparr>ui := ui w @ [St_warning ''You can upload a maximum of 10 images only!'']\<rparr>)
      else (uploaded, w))"

text \<open>Line 287: the list comprehension stops at the first image that cannot be opened.\<close>

fun open_all :: "('upl \<Rightarrow> exn + 'img) \<Rightarrow> 'upl list \<Rightarrow> exn + 'img list" where
  "open_all f [] = Inr []"
| "open_all f (u # us) =
     (case f u of
        Inl e \<Rightarrow> Inl e
      | Inr i \<Rightarrow> (case open_all f us of Inl e \<Rightarrow> Inl e | Inr is \<Rightarrow> Inr (i # is)))"

text \<open>
  Lines 259-323, the story button. The result is the exception that leaves the handler,
  if any: its \<^verbatim>\<open>except Exception\<close> lets through what is not an \<^verbatim>\<open>Exception\<close>.
\<close>

definition story_handler ::
    "('upl, 'img) outside \<Rightarrow> 'upl list \<Rightarrow> string \<Rightarrow> 'img world \<Rightarrow> exn option \<times> 'img world" where
  "story_handler env uploaded genre w =
     (if uploaded = []
      then (None, w\<lparr>ui := ui w @
              [St_warning ''Please upload at least one image before generating the story.'']\<rparr>)
      else
        (case (case open_all (image_open env) uploaded of
                 Inl e \<Rightarrow> (Inl e, w)
               | Inr pil_images \<Rightarrow>
                   (case generate_story_from_images env pil_images genre w of
                      (Inl e, w1) \<Rightarrow> (Inl e, w1)
                    | (Inr generated_story, w1) \<Rightarrow>
                        if \<not> truthy generated_story
                        then (Inr (), w1\<lparr>ui := ui w1 @
                                [St_error ''No story generated. Please try again.'']\<rparr>)
                        else (Inr (), w1\<lparr>session_story := generated_story\<rparr>))) of
           (Inr u, w2) \<Rightarrow> (None, w2)
         | (Inl e, w2) \<Rightarrow>
             if is_Exception e
             then (None, w2\<lparr>ui := ui w2 @
                     [St_error ''An error occurred during story generation'']\<rparr>)
             else (Some e, w2)))"

text \<open>
  Lines 388-495, the audio button. The file is removed only at the end of the branch that
  has played it; the bare \<^verbatim>\<open>except\<close> around \<^verbatim>\<open>os.unlink\<close> swallows every exception.
\<close>

definition audio_format :: "path \<Rightarrow> string" where
  "audio_format audio_path =
     (if suffix ''.mp3'' audio_path then ''audio/mp3''
      else if suffix ''.wav'' audio_path then ''audio/wav''
      else ''audio/wav'')"

definition play_and_remove ::
    "('upl, 'img) outside \<Rightarrow> path \<Rightarrow> 'img world \<Rightarrow> (exn + unit) \<times> 'img world" where
  "play_and_remove env audio_path w =
     (case file_read env of
        Some e \<Rightarrow> (Inl e, w)
      | None \<Rightarrow>
          (case files w audio_path of
             None \<Rightarrow> (Inl OSError, w)
           | Some audio_bytes \<Rightarrow>
               (case st_audio env of
                  Some e \<Rightarrow> (Inl e, w)
                | None \<Rightarrow>
                    let w1 = w\<lparr>ui := ui w @
                               [St_audio audio_bytes (audio_format audio_path),
                                St_success ''Audio narration generated successfully!'']\<rparr>
                    in (case os_unlink env of
                          Some e \<Rightarrow> (Inr (), w1)
                        | None \<Rightarrow> (Inr (), w1\<lparr>files := (files w1)(audio_path := None)\<rparr>)))))"

definition audio_handler ::
    "('upl, 'img) outside \<Rightarrow> 'img world \<Rightarrow> exn option \<times> 'img world" where
  "audio_handler env w =
     (case session_story w of
        None \<Rightarrow>
          (None, w\<lparr>ui := ui w @
             [St_warning ''Please generate a story first before creating audio.'']\<rparr>)
      | Some story \<Rightarrow>
          (case (case generate_audio_from_generated_story env story w of
                   (Inl e, w1) \<Rightarrow> (Inl e, w1)
                 | (Inr audio_path, w1) \<Rightarrow>
                     (case audio_path of
                        Some p \<Rightarrow>
                          if p \<noteq> [] \<and> files w1 p \<noteq> None then play_and_remove env p w1
                          else (Inr (), w1\<lparr>ui := ui w1 @
                                  [St_error ''Failed to generate audio. Check the console for details.'']\<rparr>)
                      | None \<Rightarrow>
                          (Inr (), w1\<lparr>ui := ui w1 @
                             [St_error ''Failed to generate audio. Check the console for details.'']\<rparr>))) of
             (Inr u, w2) \<Rightarrow> (None, w2)
           | (Inl e, w2) \<Rightarrow>
               if is_Exception e
               then (None, w2\<lparr>ui := ui w2 @
                       [St_error ''An unexpected error occurred while generating audio'']\<rparr>)
               else (Some e, w2)))"

text \<open>Lines 240-245: the gallery; \<^verbatim>\<open>st.image\<close> raises on an upload that is no image.\<close>

definition show_gallery ::
    "('upl, 'img) outside \<Rightarrow> 'upl list \<Rightarrow> 'img world \<Rightarrow> exn option \<times> 'img world" where
  "show_gallery env uploaded w =
     (if uploaded = [] then (None, w)
      else (case st_image env of Some e \<Rightarrow> (Some e, w) | None \<Rightarrow> (None, w)))"

text \<open>
  One run of the script in a fresh interpreter, where the import of
  \<^verbatim>\<open>Story_Generation\<close> (line 123) executes the statements of the module; it comes before
  everything else that matters here. Then the limit on the uploads, the gallery and the
  two buttons. An exception that leaves one step ends the run. The title, the story card
  and the other calls that only display are left out.
\<close>

definition app_script ::
    "('upl, 'img) outside \<Rightarrow> 'upl inputs \<Rightarrow> 'img world \<Rightarrow> exn option \<times> 'img world" where
  "app_script env inp w =
     (case import_Story_Generation env w of
        (Inl e, w1) \<Rightarrow> (Some e, w1)
      | (Inr key, w1) \<Rightarrow>
          (case limit_uploads (uploaded_images inp) w1 of
             (uploaded, w2) \<Rightarrow>
               (case show_gallery env uploaded w2 of
                  (Some e, w2') \<Rightarrow> (Some e, w2')
                | (None, w2') \<Rightarrow>
                    (case (if generate_button inp
                           then story_handler env uploaded (story_type inp) w2'
                           else (None, w2')) of
                       (Some e, w3) \<Rightarrow> (Some e, w3)
                     | (None, w3) \<Rightarrow>
                         if generate_audio_button inp then audio_handler env w3
                         else (None, w3)))))"

subsection \<open>Auxiliary definitions for the proofs about the container\<close>

text \<open>
  The 44 bytes that \<^verbatim>\<open>Wave_write\<close> puts before the samples, for the three parameters
  of the source: the RIFF tag, the RIFF size \<open>a\<close>, the format chunk (\<open>fmt_bytes\<close>: PCM, one
  channel, 24000 frames a second, 48000 bytes a second, two bytes a frame, 16 bits a
  sample), the tag of the data chunk and its size \<open>n\<close>.
\<close>

definition fmt_bytes :: bytes where
  "fmt_bytes =
     ascii ''WAVEfmt '' @
     [16, 0, 0, 0, 1, 0, 1, 0, 192, 93, 0, 0, 128, 187, 0, 0, 2, 0, 16, 0] @
     ascii ''data''"

definition container :: "nat \<Rightarrow> nat \<Rightarrow> bytes \<Rightarrow> bytes" where
  "container a n payload = ascii ''RIFF'' @ le_bytes 4 a @ fmt_bytes @ le_bytes 4 n @ payload"

text \<open>The writer after the three setters, and after the header and a payload have been written.\<close>

definition configured :: wave_write where
  "configured =
     \<lparr>wfile = BytesIO, file_is_None = False, nchannels = 1, sampwidth = 2, framerate = 24000,
      nframes = 0, nframeswritten = 0, datawritten = 0, datalength = 0,
      headerwritten = False, form_length_pos = None, data_length_pos = None\<rparr>"

definition written :: "nat \<Rightarrow> nat \<Rightarrow> bytes \<Rightarrow> nat \<Rightarrow> wave_write" where
  "written a n payload k =
     \<lparr>wfile = \<lparr>buf = container a n payload, pos = 44 + length payload\<rparr>, file_is_None = False,
      nchannels = 1, sampwidth = 2, framerate = 24000,
      nframes = k div 2, nframeswritten = (if payload = [] then 0 else k div 2),
      datawritten = length payload, datalength = n,
      headerwritten = True, form_length_pos = Some 4, data_length_pos = Some 40\<rparr>"

text \<open>What the host's byte order makes of the samples on their way to the file.\<close>

definition to_file_order :: "byteorder \<Rightarrow> bytes \<Rightarrow> exn + bytes" where
  "to_file_order bo p = (if bo = Big then byteswap p 2 else Inr p)"

text \<open>
  The RIFF chunk of a reader over the buffer \<open>B\<close>, after \<open>k\<close> bytes of its body have
  been read, and what the host's byte order makes of the samples on their way back.
\<close>

definition riff_at :: "bytes \<Rightarrow> nat \<Rightarrow> nat \<Rightarrow> bytesio chunk" where
  "riff_at B a k = Chunk_obj \<lparr>buf = B, pos = 8 + k\<rparr> (ascii ''RIFF'') a k 8"

definition from_file_order :: "byteorder \<Rightarrow> bytes \<Rightarrow> exn + bytes" where
  "from_file_order bo q = (if bo = Big then byteswap q 2 else Inr q)"

text \<open>The reader once it has found the data chunk of such a container.\<close>

definition opened :: "nat \<Rightarrow> bytes \<Rightarrow> wave_read" where
  "opened n q =
     \<lparr>riff_chunk = riff_at (container (36 + n) n q) (36 + n) 36,
      rd_nchannels = 1, rd_sampwidth = 2, rd_framerate = 24000, rd_framesize = 2,
      rd_nframes = n div 2, fmt_chunk_read = True,
      data_chunk = Some (Chunk_obj (riff_at (container (36 + n) n q) (36 + n) 36) (ascii ''data'') n 0 36),
      data_seek_needed = False, soundpos = 0\<rparr>"

text \<open>
  A call that raises nothing but instances of \<^verbatim>\<open>Exception\<close>, and outcomes of the
  outside that are no other exception than such an instance.
\<close>

definition raises_Exception_only :: "'s call \<Rightarrow> bool" where
  "raises_Exception_only m = (\<forall>s e s'. m s = (Some e, s') \<longrightarrow> is_Exception e)"

definition ordinary :: "exn option \<Rightarrow> bool" where
  "ordinary x = (case x of None \<Rightarrow> True | Some e \<Rightarrow> is_Exception e)"

definition ordinary_result :: "exn + 'a \<Rightarrow> bool" where
  "ordinary_result r = (case r of Inl e \<Rightarrow> is_Exception e | Inr v \<Rightarrow> True)"

subsection \<open>Concrete scenarios\<close>

text \<open>
  An outside in which nothing goes wrong: the key is set, the host is little-endian, every
  image opens, the remote service answers every request with a text and with four bytes
  of audio, and no call into the operating system or into Streamlit raises. The other
  scenarios change one answer of it.
\<close>

definition empty_world :: "unit world" where
  "empty_world =
     \<lparr>files = Map.empty, clients = [], requests = [], console = [], ui = [],
      session_story = None\<rparr>"

definition audio_response :: "bytes \<Rightarrow> response" where
  "audio_response d =
     Response (Some ''Once upon a time...'')
       (Some [Candidate (Some (Content (Some [Part (Some (Blob (Some d)))])))])"

definition text_only_response :: response where
  "text_only_response =
     Response (Some ''Hello'') (Some [Candidate (Some (Content (Some [Part None])))])"

definition quiet_outside :: "(unit, unit) outside" where
  "quiet_outside =
     \<lparr>getenv = [''GOOGLE_API_KEY'' \<mapsto> ''secret''], sys_byteorder = Little,
      image_open = (\<lambda>u. Inr ()),
      generate_content = (\<lambda>rq. Inr (audio_response [1, 2, 3, 4])),
      tmp_create = Inr ''/tmp/tmpstory.wav'', tmp_write = None, tmp_flush = None,
      tmp_close = None, stdout_print = None, traceback_print = None, st_image = None,
      file_read = None, st_audio = None, os_unlink = None\<rparr>"

definition no_key :: "string \<rightharpoonup> string" where
  "no_key = Map.empty"

definition all_buttons :: "nat \<Rightarrow> unit inputs" where
  "all_buttons n =
     \<lparr>uploaded_images = replicate n (), story_type = ''Comedy'', generate_button = True,
      generate_audio_button = True\<rparr>"

text \<open>
  The audio bytes that the first part of a response carries, if any; and an outcome of the
  speech request that is either a failure that \<^verbatim>\<open>except Exception\<close> catches or a response
  without such bytes.
\<close>

definition inline_audio :: "response \<Rightarrow> bytes option" where
  "inline_audio r =
     (case first_part r of
        Inr (Part (Some (Blob (Some d)))) \<Rightarrow> Some d
      | _ \<Rightarrow> None)"

definition failure_or_no_audio :: "exn + response \<Rightarrow> bool" where
  "failure_or_no_audio outcome =
     (case outcome of Inl e \<Rightarrow> is_Exception e | Inr r \<Rightarrow> inline_audio r = None)"

text \<open>The container for the four bytes of audio of the quiet outside.\<close>

definition quiet_container :: bytes where
  "quiet_container =
     container (36 + length [1, 2, 3, 4 :: byte]) (length [1, 2, 3, 4 :: byte]) [1, 2, 3, 4]"

text \<open>
  Outsides that differ from the quiet one in one answer: the speech request is answered
  with text only; the remote call fails with an error of the client; it is interrupted
  from the keyboard; no key is configured; writing the temporary file fails (a full
  disk); the audio player of Streamlit raises; the remote call fails and the standard
  output cannot encode the cross mark; the response carries an empty bytes object as its
  audio. And a world in which a story has been generated before.
\<close>

definition text_only_outside :: "(unit, unit) outside" where
  "text_only_outside = quiet_outside\<lparr>generate_content := (\<lambda>rq. Inr text_only_response)\<rparr>"

definition unreachable_outside :: "(unit, unit) outside" where
  "unreachable_outside = quiet_outside\<lparr>generate_content := (\<lambda>rq. Inl APIError)\<rparr>"

definition interrupted_outside :: "(unit, unit) outside" where
  "interrupted_outside = quiet_outside\<lparr>generate_content := (\<lambda>rq. Inl KeyboardInterrupt)\<rparr>"

definition keyless_outside :: "(unit, unit) outside" where
  "keyless_outside = quiet_outside\<lparr>getenv := no_key\<rparr>"

definition disk_full_outside :: "(unit, unit) outside" where
  "disk_full_outside = quiet_outside\<lparr>tmp_write := Some OSError\<rparr>"

definition broken_player_outside :: "(unit, unit) outside" where
  "broken_player_outside = quiet_outside\<lparr>st_audio := Some RuntimeError\<rparr>"

definition narrow_console_outside :: "(unit, unit) outside" where
  "narrow_console_outside = unreachable_outside\<lparr>stdout_print := Some UnicodeEncodeError\<rparr>"

definition empty_audio_outside :: "(unit, unit) outside" where
  "empty_audio_outside = quiet_outside\<lparr>generate_content := (\<lambda>rq. Inr (audio_response []))\<rparr>"

definition story_world :: "unit world" where
  "story_world = empty_world\<lparr>session_story := Some ''Once upon a time...''\<rparr>"

subsection \<open>Facts about the prompt\<close>

lemma sublist_join_lines:
  assumes "l \<in> set ls"
  shows "sublist l (join_lines ls)"
  using assms
proof (induction ls rule: join_lines.induct)
  case 1
  then show ?case by simp
next
  case (2 l')
  then show ?case by simp
next
  case (3 l' m ms)
  show ?case
  proof (cases "l = l'")
    case True
    then show ?thesis by simp
  next
    case False
    with 3 have "sublist l (join_lines (m # ms))" by simp
    then have "sublist l ((l' @ nl) @ join_lines (m # ms))"
      by (rule sublist_order.order_trans [OF _ sublist_append_leftI])
    then show ?thesis by simp
  qed
qed

lemma sublist_line_story_prompt:
  assumes "l \<in> set (prompt_lines g)" and "sublist xs l"
  shows "sublist xs (story_prompt g)"
proof -
  from assms(1) have "sublist l (story_prompt g)"
    unfolding story_prompt_def by (rule sublist_join_lines)
  with assms(2) show ?thesis
    by (rule sublist_order.order_trans)
qed

lemma request_line_in_prompt: "request_line g \<in> set (prompt_lines g)"
  by (simp add: prompt_lines_def request_line_def)

lemma table_line_in_prompt:
  assumes "r \<in> set tone_table"
  shows "table_line r \<in> set (prompt_lines g)"
proof -
  have "list_all (\<lambda>r. table_line r \<in> set (prompt_lines g)) tone_table"
    by (simp add: tone_table_def table_line_def prompt_lines_def)
  with assms show ?thesis
    by (simp add: list_all_iff)
qed

lemma sublist_table_line: "sublist (snd r) (table_line r)"
proof -
  have "table_line r = (''        - '' @ fst r @ '' '' @ rarrow @ '' '') @ snd r @ ''  ''"
    by (simp add: table_line_def)
  then show ?thesis
    unfolding sublist_def by blast
qed

lemma sublist_request_line:
  "sublist (''Your job is to write a **'' @ g @ '' story**'') (request_line g)"
proof -
  have "request_line g =
      ''        You are a professional and skilled storyteller. '' @
      (''Your job is to write a **'' @ g @ '' story**'') @
      '' using the uploaded images as your inspiration.''"
    by (simp add: request_line_def)
  then show ?thesis
    unfolding sublist_def by blast
qed

lemma tone_keyword_in_table:
  assumes "g \<in> set genres"
  shows "\<exists>kw. tone_keyword g = Some kw \<and> (tone_row g, kw) \<in> set tone_table"
proof -
  have "list_all (\<lambda>g. \<exists>kw. tone_keyword g = Some kw \<and> (tone_row g, kw) \<in> set tone_table) genres"
    by (simp add: genres_def tone_keyword_def tone_row_def tone_table_def)
  with assms show ?thesis
    by (simp add: list_all_iff)
qed

text \<open>
  Claim C5. \<^verbatim>\<open>story_prompt\<close> is embedded as a function of the genre label alone, with
  no state, so two calls with the same label give the same text. For each of the ten
  labels of the select box the text contains the label itself (in the request for a story
  of that type), the whole row of the tone table that belongs to the label, and so that
  row's tone words.
\<close>

theorem story_prompt_genre_content:
  assumes "g \<in> set genres"
  shows "sublist (''write a **'' @ g @ '' story**'') (story_prompt g) \<and>
    (\<exists>kw. tone_keyword g = Some kw \<and>
      table_line (tone_row g, kw) \<in> set (prompt_lines g) \<and>
      sublist kw (story_prompt g))"
proof -
  from assms obtain kw where kw: "tone_keyword g = Some kw" "(tone_row g, kw) \<in> set tone_table"
    using tone_keyword_in_table by blast
  have line: "table_line (tone_row g, kw) \<in> set (prompt_lines g)"
    using kw(2) by (rule table_line_in_prompt)
  have "sublist kw (table_line (tone_row g, kw))"
    using sublist_table_line [of "(tone_row g, kw)"] by simp
  with line have tone: "sublist kw (story_prompt g)"
    by (rule sublist_line_story_prompt)
  have "request_line g =
      ''        You are a professional and skilled storyteller. Your job is to '' @
      (''write a **'' @ g @ '' story**'') @
      '' using the uploaded images as your inspiration.''"
    by (simp add: request_line_def)
  then have "sublist (''write a **'' @ g @ '' story**'') (request_line g)"
    unfolding sublist_def by blast
  with request_line_in_prompt have "sublist (''write a **'' @ g @ '' story**'') (story_prompt g)"
    by (rule sublist_line_story_prompt)
  with kw(1) line tone show ?thesis
    by simp
qed

theorem story_prompt_genre_content_witness:
  "''Adventurous'' \<in> set genres \<and>
   sublist ''write a **Adventurous story**'' (story_prompt ''Adventurous'') \<and>
   tone_keyword ''Adventurous'' = Some ''exciting and bold'' \<and>
   sublist ''exciting and bold'' (story_prompt ''Adventurous'')"
proof -
  have g: "''Adventurous'' \<in> set genres"
    by (simp add: genres_def)
  have kw: "tone_keyword ''Adventurous'' = Some ''exciting and bold''"
    by (simp add: tone_keyword_def tone_row_def tone_table_def)
  from story_prompt_genre_content [OF g] kw g show ?thesis
    by simp
qed

text \<open>
  Claim C6, as stated, fails: \<^verbatim>\<open>story_prompt\<close> has no check of its argument. For the
  label \<open>Romance\<close>, which the select box does not offer, it returns a prompt that asks
  for a Romance story.
\<close>

theorem story_prompt_unknown_genre_counterexample:
  "''Romance'' \<notin> set genres \<and>
   sublist ''Your job is to write a **Romance story**'' (story_prompt ''Romance'')"
proof -
  have "sublist ''Your job is to write a **Romance story**'' (story_prompt ''Romance'')"
    using sublist_line_story_prompt [OF request_line_in_prompt sublist_request_line, of "''Romance''"]
    by simp
  then show ?thesis
    by (simp add: genres_def)
qed

text \<open>
  Claim C6, amended: \<^verbatim>\<open>story_prompt\<close> validates nothing. For every string, one of the
  ten labels or not, it returns the template with the string in the place of the
  replacement field: the request for a story of that type is part of the text, and the
  text is as long as the template (1746 bytes) and the string together.
\<close>

theorem story_prompt_total:
  "sublist (''Your job is to write a **'' @ g @ '' story**'') (story_prompt g) \<and>
   length (story_prompt g) = 1746 + length g"
proof -
  have "length (story_prompt g) = 1746 + length g"
    by (simp add: story_prompt_def prompt_lines_def emdash_def rarrow_def nl_def)
  with sublist_line_story_prompt [OF request_line_in_prompt sublist_request_line, of g]
  show ?thesis
    by simp
qed

subsection \<open>Facts about the writer\<close>

lemma le_bytes_numeral:
  "le_bytes (numeral k) v = of_nat (v mod 256) # le_bytes (pred_numeral k) (v div 256)"
proof -
  have "numeral k = Suc (pred_numeral k)" by (rule numeral_eq_Suc)
  then show ?thesis by (simp only: le_bytes.simps)
qed

lemma length_le_bytes [simp]: "length (le_bytes n v) = n"
  by (induction n arbitrary: v) simp_all

lemma length_fmt_bytes [simp]: "length fmt_bytes = 32"
  by (simp add: fmt_bytes_def ascii_def)

lemma length_container [simp]: "length (container a n p) = 44 + length p"
  by (simp add: container_def ascii_def)

lemma container_Nil_append: "container a n [] @ p = container a n p"
  by (simp add: container_def)

lemma le_bytes_4_neq_Nil [simp]: "le_bytes 4 v \<noteq> []"
  by (simp add: le_bytes_numeral)

lemma bio_write_append:
  "pos f = length (buf f) \<Longrightarrow>
   bio_write b f = \<lparr>buf = buf f @ b, pos = length (buf f) + length b\<rparr>"
  by (cases f) (simp add: bio_write_def Let_def)

lemma patch_form:
  "bio_write (le_bytes 4 x) \<lparr>buf = container a n p, pos = 4\<rparr> =
   \<lparr>buf = container x n p, pos = 8\<rparr>"
  by (simp add: bio_write_def container_def ascii_def Let_def)

lemma patch_data:
  "bio_write (le_bytes 4 y) \<lparr>buf = container a n p, pos = 40\<rparr> =
   \<lparr>buf = container a y p, pos = 44\<rparr>"
  by (simp add: bio_write_def container_def ascii_def Let_def)

lemma struct_pack_header:
  assumes "36 + n < 2 ^ 32"
  shows "struct_pack [L (36 + n), S4 (ascii ''WAVE''), S4 (ascii ''fmt ''), L 16,
                  H WAVE_FORMAT_PCM, H 1, L 24000, L (1 * 24000 * 2), H (1 * 2), H (2 * 8),
                  S4 (ascii ''data'')] = Inr (le_bytes 4 (36 + n) @ fmt_bytes)"
  using assms by (simp add: ascii_def WAVE_FORMAT_PCM_def fmt_bytes_def le_bytes_numeral)

lemma configured_run:
  "seq (setnchannels 1) (seq (setsampwidth 2) (seq (setframerate 24000) g)) (initfp BytesIO) =
   g configured"
  by (simp add: seq_def setnchannels_def setsampwidth_def setframerate_def initfp_def
      configured_def)

lemma header_state:
  assumes "36 + 2 * (k div 2) < 2 ^ 32"
  shows "ensure_header_written k configured =
    (None, written (36 + 2 * (k div 2)) (2 * (k div 2)) [] k)"
  using assms struct_pack_header [of "k div 2 * 2"]
  apply (simp add: configured_def written_def BytesIO_def ensure_header_written_def
      write_header_def Let_def bio_tell_def)
  apply (simp add: bio_write_append container_def mult.commute)
  apply (simp add: ascii_def)
  done

lemmas wave_wrap_defs =
  wave_wrap_def with_wave_open_def seq_def initfp_def setnchannels_def setsampwidth_def
  setframerate_def writeframes_def writeframesraw_def ensure_header_written_def
  write_header_def patchheader_def close_def BytesIO_def bio_write_def bio_tell_def
  bio_seek_def ascii_def WAVE_FORMAT_PCM_def Let_def

lemma writeframesraw_configured:
  assumes "36 + 2 * (length p div 2) < 2 ^ 32"
    and "to_file_order bo p = Inr q" and "length q = length p"
  shows "writeframesraw bo (Some p) configured =
    (None, written (36 + 2 * (length p div 2)) (2 * (length p div 2)) q (length p))"
proof -
  let ?w = "written (36 + 2 * (length p div 2)) (2 * (length p div 2)) [] (length p)"
  have sel: "sampwidth ?w = 2" "nchannels ?w = 1"
    by (simp_all add: written_def)
  have sw: "(if sampwidth ?w \<noteq> 1 \<and> bo = Big then byteswap p (sampwidth ?w) else Inr p) = Inr q"
    using assms(2) unfolding sel to_file_order_def by (cases bo) simp_all
  from assms(3) have e: "(q = []) = (p = [])"
    by auto
  have "writeframesraw bo (Some p) configured =
      (None, ?w\<lparr>wfile := bio_write q (wfile ?w),
                 datawritten := datawritten ?w + length q,
                 nframeswritten := nframeswritten ?w + length p div (sampwidth ?w * nchannels ?w)\<rparr>)"
    unfolding writeframesraw_def option.case header_state [OF assms(1)] prod.case Let_def sw
    by simp
  also have "\<dots> = (None, written (36 + 2 * (length p div 2)) (2 * (length p div 2)) q (length p))"
    using e assms(3) by (simp add: written_def bio_write_append container_Nil_append)
  finally show ?thesis .
qed

lemma patchheader_written:
  assumes "36 + length p < 2 ^ 32" and "length p \<noteq> n"
  shows "patchheader (written a n p k) = (None, written (36 + length p) (length p) p k)"
  using assms
  by (simp add: patchheader_def written_def bio_tell_def bio_seek_def patch_form patch_data
      Let_def)

lemma close_written:
  "close (written (36 + length p) (length p) p k) =
    (None, (written (36 + length p) (length p) p k)\<lparr>file_is_None := True\<rparr>)"
  by (simp add: close_def seq_def ensure_header_written_def written_def)

lemma wave_wrap_container:
  assumes "36 + length p < 2 ^ 32"
    and "to_file_order bo p = Inr q" and "length q = length p"
  shows "wave_wrap bo (Some p) = Inr \<lparr>buf = container (36 + length p) (length p) q, pos = 0\<rparr>"
proof -
  from assms(1) have b: "36 + 2 * (length p div 2) < 2 ^ 32" by simp
  note raw = writeframesraw_configured [OF b assms(2,3)]
  have "writeframes bo (Some p) configured =
      (None, written (36 + length q) (length q) q (length p))"
  proof (cases "even (length p)")
    case True
    then have "2 * (length p div 2) = length p" by simp
    with raw assms(3) show ?thesis
      by (simp add: writeframes_def written_def)
  next
    case False
    then have "length q \<noteq> 2 * (length p div 2)"
      unfolding assms(3) by presburger
    with assms(1,3) raw patchheader_written [of q "2 * (length p div 2)"] show ?thesis
      by (simp add: writeframes_def) (simp add: written_def)
  qed
  then show ?thesis
    unfolding wave_wrap_def Let_def with_wave_open_def configured_run
    by (simp add: close_written) (simp add: written_def bio_seek_def assms(3))
qed

lemma to_file_order_Little: "to_file_order Little p = Inr p"
  by (simp add: to_file_order_def)

lemma byteswap_pair: "byteswap (x # y # zs) 2 = (case byteswap zs 2 of Inl e \<Rightarrow> Inl e | Inr r \<Rightarrow> Inr (y # x # r))"
  by (subst byteswap.simps) (simp split: sum.split)

lemma byteswap_Nil: "byteswap [] 2 = Inr []"
  by (subst byteswap.simps) simp

lemma byteswap_single: "byteswap [x] 2 = Inl IndexError"
  by (subst byteswap.simps) simp

lemma byteswap_even:
  assumes "even (length p)"
  shows "\<exists>q. byteswap p 2 = Inr q \<and> length q = length p \<and> byteswap q 2 = Inr p"
  using assms
proof (induction p rule: induct_list012)
  case 1
  then show ?case by (simp add: byteswap_Nil)
next
  case (2 x)
  then show ?case by simp
next
  case (3 x y zs)
  then obtain q where "byteswap zs 2 = Inr q" "length q = length zs" "byteswap q 2 = Inr zs"
    by auto
  then show ?case by (simp add: byteswap_pair)
qed

lemma byteswap_odd:
  assumes "odd (length p)"
  shows "byteswap p 2 = Inl IndexError"
  using assms
proof (induction p rule: induct_list012)
  case 1
  then show ?case by simp
next
  case (2 x)
  then show ?case by (simp add: byteswap_single)
next
  case (3 x y zs)
  then show ?case by (simp add: byteswap_pair)
qed

lemma wave_wrap_Big_odd:
  assumes "odd (length p)" and "36 + length p < 2 ^ 32"
  shows "wave_wrap Big (Some p) = Inl IndexError"
proof -
  let ?w = "written (36 + 2 * (length p div 2)) (2 * (length p div 2)) [] (length p)"
  from assms(2) have b: "36 + 2 * (length p div 2) < 2 ^ 32" by simp
  have sel: "sampwidth ?w = 2"
    by (simp add: written_def)
  have "writeframesraw Big (Some p) configured = (Some IndexError, ?w)"
    unfolding writeframesraw_def option.case header_state [OF b] prod.case Let_def sel
    by (simp add: byteswap_odd [OF assms(1)])
  then have wf: "writeframes Big (Some p) configured = (Some IndexError, ?w)"
    by (simp add: writeframes_def)
  have "fst (close ?w) = None"
  proof (cases "2 * (length p div 2) = 0")
    case True
    then show ?thesis
      by (simp add: close_def seq_def ensure_header_written_def written_def)
  next
    case False
    then have "length ([] :: bytes) \<noteq> 2 * (length p div 2)" by simp
    from patchheader_written [OF _ this, of "36 + 2 * (length p div 2)" "length p"]
    have "patchheader ?w = (None, written 36 0 [] (length p))"
      by simp
    with False show ?thesis
      by (simp add: close_def seq_def ensure_header_written_def)
        (simp add: written_def)
  qed
  then obtain w2 where "close ?w = (None, w2)"
    by (cases "close ?w") simp
  then show ?thesis
    unfolding wave_wrap_def Let_def with_wave_open_def configured_run wf
    by simp
qed

lemma struct_pack_error:
  assumes "struct_pack fs = Inl e"
  shows "e = StructError"
  using assms
proof (induction fs)
  case Nil
  then show ?case by simp
next
  case (Cons f fs)
  then show ?case
    by (cases f) (auto split: sum.splits if_splits)
qed

lemma byteswap_error:
  assumes "byteswap d n = Inl e"
  shows "is_Exception e"
  using assms
proof (induction d n rule: byteswap.induct)
  case (1 d n)
  show ?case
  proof (cases "n = 0 \<or> d = [] \<or> length d < n")
    case True
    with 1(2) show ?thesis
      by (subst (asm) byteswap.simps) (auto split: if_splits)
  next
    case False
    with 1(2) have "byteswap (drop n d) n = Inl e"
      by (subst (asm) byteswap.simps) (auto split: sum.splits)
    with False 1(1) show ?thesis
      by auto
  qed
qed

lemma reoD:
  assumes "raises_Exception_only m" "m s = (Some e, s')"
  shows "is_Exception e"
  using assms by (auto simp: raises_Exception_only_def)

lemma reo_seq:
  assumes "raises_Exception_only f" "raises_Exception_only g"
  shows "raises_Exception_only (seq f g)"
  using assms
  by (auto simp: raises_Exception_only_def seq_def split: prod.splits option.splits)

lemma reo_setters:
  "raises_Exception_only (setnchannels n)"
  "raises_Exception_only (setsampwidth n)"
  "raises_Exception_only (setframerate n)"
  by (auto simp: raises_Exception_only_def setnchannels_def setsampwidth_def setframerate_def
      split: if_splits)

lemma reo_write_header: "raises_Exception_only (write_header n)"
  by (auto simp: raises_Exception_only_def write_header_def Let_def
      split: if_splits sum.splits dest!: struct_pack_error)

lemma reo_ensure_header_written: "raises_Exception_only (ensure_header_written n)"
  using reo_write_header [of n]
  by (auto simp: raises_Exception_only_def ensure_header_written_def split: if_splits)

lemma reo_patchheader: "raises_Exception_only patchheader"
  by (auto simp: raises_Exception_only_def patchheader_def Let_def
      split: if_splits sum.splits option.splits dest!: struct_pack_error)

lemma reo_writeframesraw: "raises_Exception_only (writeframesraw bo d)"
  using reo_ensure_header_written
  by (auto simp: raises_Exception_only_def writeframesraw_def Let_def
      split: if_splits sum.splits option.splits prod.splits dest: byteswap_error)

lemma reo_writeframes: "raises_Exception_only (writeframes bo d)"
  using reo_writeframesraw [of bo d] reo_patchheader
  by (auto simp: raises_Exception_only_def writeframes_def
      split: if_splits option.splits prod.splits)

lemma reo_close: "raises_Exception_only close"
proof -
  let ?p = "\<lambda>w1. if datalength w1 \<noteq> datawritten w1 then patchheader w1 else (None, w1)"
  have "raises_Exception_only ?p"
    using reo_patchheader by (auto simp: raises_Exception_only_def split: if_splits)
  from reo_seq [OF reo_ensure_header_written this]
  have s: "raises_Exception_only (seq (ensure_header_written 0) ?p)" .
  show ?thesis
    unfolding raises_Exception_only_def
  proof (intro allI impI)
    fix w e w'
    assume c: "close w = (Some e, w')"
    show "is_Exception e"
    proof (cases "file_is_None w")
      case True
      with c show ?thesis by (simp add: close_def)
    next
      case False
      obtain x y where xy: "seq (ensure_header_written 0) ?p w = (x, y)"
        by (cases "seq (ensure_header_written 0) ?p w")
      with c False have "x = Some e"
        by (simp add: close_def)
      with xy reoD [OF s] show ?thesis by blast
    qed
  qed
qed

lemma wave_wrap_error:
  assumes "wave_wrap bo d = Inl e"
  shows "is_Exception e"
proof -
  let ?body = "seq (setnchannels 1) (seq (setsampwidth 2) (seq (setframerate 24000) (writeframes bo d)))"
  have b: "raises_Exception_only ?body"
    by (intro reo_seq reo_setters reo_writeframes)
  obtain x w1 where r1: "?body (initfp BytesIO) = (x, w1)"
    by (cases "?body (initfp BytesIO)")
  obtain y w2 where r2: "close w1 = (y, w2)"
    by (cases "close w1")
  from assms r1 r2 have "y = Some e \<or> (y = None \<and> x = Some e)"
    unfolding wave_wrap_def Let_def with_wave_open_def
    by (auto split: option.splits)
  with r1 r2 reoD [OF b] reoD [OF reo_close] show ?thesis
    by blast
qed

subsection \<open>Facts about the reader\<close>

lemma le_val_le_bytes:
  assumes "v < 256 ^ n"
  shows "le_val (le_bytes n v) = v"
  using assms
proof (induction n arbitrary: v)
  case 0
  then show ?case by simp
next
  case (Suc n)
  then have "v div 256 < 256 ^ n"
    by (simp add: less_mult_imp_div_less mult.commute)
  with Suc.IH have "le_val (le_bytes n (v div 256)) = v div 256" by simp
  then show ?case by (simp add: unat_of_nat)
qed

lemma outer_read_in:
  assumes "k < a" "8 + a \<le> length B" "even a \<or> k + m < a"
  shows "chunk_read bio_ops m (riff_at B a k) =
    (take (min m (a - k)) (drop (8 + k) B), riff_at B a (k + min m (a - k)))"
  using assms
  by (auto simp: chunk_read_def riff_at_def advance_def bio_ops_def bio_read_def Let_def min_def)

lemma inner_read_in:
  assumes "sr < sz" "k + (sz - sr) \<le> a" "8 + a \<le> length B"
    and "even a \<or> k + m < a" "even sz \<or> sr + m < sz"
  shows "chunk_read inner_ops m (Chunk_obj (riff_at B a k) nm sz sr off) =
    (take (min m (sz - sr)) (drop (8 + k) B),
     Chunk_obj (riff_at B a (k + min m (sz - sr))) nm sz (sr + min m (sz - sr)) off)"
proof -
  from assms have k: "k < a"
    by simp
  have rd: "chunk_read bio_ops m' (riff_at B a k) =
      (take (min m' (a - k)) (drop (8 + k) B), riff_at B a (k + min m' (a - k)))"
    if "m' \<le> m" for m'
    using that assms(4) by (intro outer_read_in [OF k assms(3)]) auto
  show ?thesis
    using assms
    by (subst chunk_read_def)
      (auto simp: inner_ops_def chunk_ops_def Let_def rd advance_def min_def)
qed

lemma container_parts:
  "take 4 (container a n q) = ascii ''RIFF''"
  "take 4 (drop 4 (container a n q)) = le_bytes 4 a"
  "take 4 (drop 8 (container a n q)) = ascii ''WAVE''"
  "take 4 (drop 12 (container a n q)) = ascii ''fmt ''"
  "take 4 (drop 16 (container a n q)) = [16, 0, 0, 0]"
  "take 14 (drop 20 (container a n q)) = [1, 0, 1, 0, 192, 93, 0, 0, 128, 187, 0, 0, 2, 0]"
  "take 2 (drop 34 (container a n q)) = [16, 0]"
  "take 4 (drop 36 (container a n q)) = ascii ''data''"
  "take 4 (drop 40 (container a n q)) = le_bytes 4 n"
  "drop 44 (container a n q) = q"
  by (simp_all add: container_def fmt_bytes_def ascii_def)

lemma Chunk_riff:
  assumes "a < 2 ^ 32"
  shows "Chunk bio_ops \<lparr>buf = container a n q, pos = 0\<rparr> = Inr (riff_at (container a n q) a 0)"
  using assms
  by (simp add: Chunk_def bio_ops_def bio_read_def bio_tell_def unpack_le_def riff_at_def
      container_parts le_val_le_bytes Let_def) (simp add: ascii_def)

lemma riff_at_sel [simp]:
  "size_read (riff_at B a k) = k" "chunksize (riff_at B a k) = a" "offset (riff_at B a k) = 8"
  "cfile (riff_at B a k) = \<lparr>buf = B, pos = 8 + k\<rparr>"
  "chunkname (riff_at B a k) = ascii ''RIFF''"
  by (simp_all add: riff_at_def)

lemma Chunk_inner_at:
  assumes "k + 8 \<le> a" "8 + a \<le> length B" "even a \<or> k + 8 < a"
  shows "Chunk inner_ops (riff_at B a k) =
    Inr (Chunk_obj (riff_at B a (k + 8)) (take 4 (drop (8 + k) B))
          (le_val (take 4 (drop (12 + k) B))) 0 (k + 8))"
proof -
  from assms have k: "k < a" and k4: "k + 4 < a"
    by simp_all
  from assms(3) have p: "even a \<or> k + 4 < a" "even a \<or> k + 4 + 4 < a"
    by auto
  note rd1 = outer_read_in [OF k assms(2) p(1)]
  note rd2 = outer_read_in [OF k4 assms(2) p(2)]
  from assms have m: "min 4 (a - k) = 4" "min 4 (a - (k + 4)) = 4"
    by simp_all
  from assms have l: "length (take 4 (drop (8 + k) B)) = 4" "length (take 4 (drop (12 + k) B)) = 4"
    by simp_all
  have e: "k + 4 + 4 = k + 8" "8 + (k + 4) = 12 + k"
    by simp_all
  show ?thesis
    using l
    by (simp add: Chunk_def inner_ops_def chunk_ops_def rd1 rd2 m unpack_le_def chunk_tell_def e
        del: length_take)
qed

lemma fmt_chunk_at:
  assumes "length q = n"
  shows "Chunk inner_ops (riff_at (container (36 + n) n q) (36 + n) 4) =
    Inr (Chunk_obj (riff_at (container (36 + n) n q) (36 + n) 12) (ascii ''fmt '') 16 0 12)"
  using assms Chunk_inner_at [of 4 "36 + n" "container (36 + n) n q"]
  by (simp add: container_parts)

lemma data_chunk_at:
  assumes "length q = n" "36 + n < 2 ^ 32"
  shows "Chunk inner_ops (riff_at (container (36 + n) n q) (36 + n) 28) =
    Inr (Chunk_obj (riff_at (container (36 + n) n q) (36 + n) 36) (ascii ''data'') n 0 36)"
proof -
  have "even (36 + n) \<or> 28 + 8 < 36 + n"
    by (cases "n = 0") auto
  with assms Chunk_inner_at [of 28 "36 + n" "container (36 + n) n q"] show ?thesis
    by (simp add: container_parts le_val_le_bytes)
qed

lemma read_fmt_chunk_container:
  assumes "length q = n"
  shows "read_fmt_chunk (Chunk_obj (riff_at (container (36 + n) n q) (36 + n) 12) (ascii ''fmt '') 16 0 12) r =
    Inr (Chunk_obj (riff_at (container (36 + n) n q) (36 + n) 28) (ascii ''fmt '') 16 16 12,
         r\<lparr>rd_nchannels := 1, rd_framerate := 24000, rd_sampwidth := 2, rd_framesize := 2\<rparr>)"
proof -
  let ?B = "container (36 + n) n q"
  have r1: "chunk_read inner_ops 14 (Chunk_obj (riff_at ?B (36 + n) 12) (ascii ''fmt '') 16 0 12) =
      ([1, 0, 1, 0, 192, 93, 0, 0, 128, 187, 0, 0, 2, 0],
       Chunk_obj (riff_at ?B (36 + n) 26) (ascii ''fmt '') 16 14 12)"
    using assms inner_read_in [of 0 16 12 "36 + n" ?B 14 "ascii ''fmt ''" 12]
    by (simp add: container_parts)
  have r2: "chunk_read inner_ops 2 (Chunk_obj (riff_at ?B (36 + n) 26) (ascii ''fmt '') 16 14 12) =
      ([16, 0], Chunk_obj (riff_at ?B (36 + n) 28) (ascii ''fmt '') 16 16 12)"
    using assms inner_read_in [of 14 16 26 "36 + n" ?B 2 "ascii ''fmt ''" 12]
    by (simp add: container_parts)
  show ?thesis
    by (simp add: read_fmt_chunk_def r1 r2 Let_def WAVE_FORMAT_PCM_def unpack_le_def)
qed

lemma chunk_skip_fmt:
  "chunk_skip inner_ops (Chunk_obj (riff_at B (36 + n) 28) nm 16 16 12) =
    Inr (Chunk_obj (riff_at B (36 + n) 28) nm 16 16 12)"
  by (simp add: chunk_skip_def inner_ops_def chunk_ops_def chunk_seek_def bio_ops_def
      bio_seek_whence_def advance_def riff_at_def Let_def)

lemma read_chunks_container:
  assumes "length q = n" "36 + n < 2 ^ 32"
  shows "read_chunks
      \<lparr>riff_chunk = riff_at (container (36 + n) n q) (36 + n) 4, rd_nchannels = 0,
       rd_sampwidth = 0, rd_framerate = 0, rd_framesize = 0, rd_nframes = 0,
       fmt_chunk_read = False, data_chunk = None, data_seek_needed = True, soundpos = 0\<rparr> =
    Inr (opened n q)"
proof -
  have names: "ascii ''data'' \<noteq> ascii ''fmt ''"
    by (simp add: ascii_def)
  show ?thesis
    apply (subst read_chunks.simps)
    apply (simp add: fmt_chunk_at [OF assms(1)] read_fmt_chunk_container [OF assms(1)]
        chunk_skip_fmt)
    apply (subst read_chunks.simps)
    apply (simp add: data_chunk_at [OF assms] names opened_def)
    done
qed

lemma Wave_read_container:
  assumes "length q = n" "36 + n < 2 ^ 32"
  shows "Wave_read \<lparr>buf = container (36 + n) n q, pos = 0\<rparr> = Inr (opened n q)"
proof -
  let ?B = "container (36 + n) n q"
  have rd: "chunk_read bio_ops 4 (riff_at ?B (36 + n) 0) = (ascii ''WAVE'', riff_at ?B (36 + n) 4)"
    using assms outer_read_in [of 0 "36 + n" ?B 4]
    by (simp add: container_parts)
  have o: "fmt_chunk_read (opened n q)" "data_chunk (opened n q) \<noteq> None"
    by (simp_all add: opened_def)
  show ?thesis
    using o
    by (simp add: Wave_read_def Chunk_riff [OF assms(2)] rd read_chunks_container [OF assms])
qed

lemma readframes_opened:
  assumes "length q = n" "even n" "from_file_order bo q = Inr p"
  shows "\<exists>r. readframes bo (rd_nframes (opened n q)) (opened n q) = Inr (p, r)"
proof (cases "n = 0")
  case True
  with assms(1) have "q = []" by simp
  with assms(3) have "p = []"
    by (simp add: from_file_order_def byteswap_Nil split: if_splits)
  with True show ?thesis
    by (simp add: readframes_def opened_def)
next
  case False
  let ?B = "container (36 + n) n q"
  from assms(2) have n2: "n div 2 * 2 = n" by simp
  have rd: "chunk_read inner_ops n (Chunk_obj (riff_at ?B (36 + n) 36) (ascii ''data'') n 0 36) =
      (q, Chunk_obj (riff_at ?B (36 + n) (36 + n)) (ascii ''data'') n n 36)"
    using assms(1,2) False inner_read_in [of 0 n 36 "36 + n" ?B n "ascii ''data''" 36]
    by (simp add: container_parts)
  from False assms(2) have nz: "n div 2 \<noteq> 0"
    by presburger
  show ?thesis
  proof (cases bo)
    case Little
    with assms(3) have pq: "p = q"
      by (simp add: from_file_order_def)
    from nz Little show ?thesis
      unfolding pq by (simp add: readframes_def opened_def n2 rd Let_def)
  next
    case Big
    with assms(3) have "byteswap q 2 = Inr p"
      by (simp add: from_file_order_def)
    with nz Big show ?thesis
      by (simp add: readframes_def opened_def n2 rd Let_def)
  qed
qed

lemma wave_decode_container:
  assumes "length q = n" "even n" "36 + n < 2 ^ 32" "from_file_order bo q = Inr p"
  shows "wave_decode bo (container (36 + n) n q) = Inr ((1, 2, 24000), p)"
proof -
  from readframes_opened [OF assms(1,2,4)] obtain r
    where "readframes bo (rd_nframes (opened n q)) (opened n q) = Inr (p, r)" ..
  then show ?thesis
    by (simp add: wave_decode_def Wave_read_container [OF assms(1,3)]) (simp add: opened_def)
qed

lemma declared_data_length_container:
  assumes "length q = n" "36 + n < 2 ^ 32"
  shows "declared_data_length (container (36 + n) n q) = Inr n"
  by (simp add: declared_data_length_def Wave_read_container [OF assms]) (simp add: opened_def)

lemma from_to_file_order:
  assumes "even (length p)"
  shows "\<exists>q. to_file_order bo p = Inr q \<and> length q = length p \<and> from_file_order bo q = Inr p"
  using byteswap_even [OF assms]
  by (cases bo) (auto simp: to_file_order_def from_file_order_def)

subsection \<open>Facts about the flows\<close>

lemmas scenario_defs =
  quiet_outside_def empty_world_def audio_response_def text_only_response_def all_buttons_def
  no_key_def text_only_outside_def unreachable_outside_def interrupted_outside_def
  keyless_outside_def disk_full_outside_def broken_player_outside_def story_world_def
  narrow_console_outside_def empty_audio_outside_def

lemma print_line_quiet:
  assumes "stdout_print env = None"
  shows "print_line env l w = (None, w\<lparr>console := console w @ [l]\<rparr>)"
  using assms by (simp add: print_line_def)

lemma print_exc_quiet:
  assumes "traceback_print env = None"
  shows "print_exc env e w = (None, w\<lparr>console := console w @ [Traceback e]\<rparr>)"
  using assms by (simp add: print_exc_def)

lemma print_line_keeps:
  assumes "print_line env l w = (x, w')"
  shows "requests w' = requests w \<and> files w' = files w"
  using assms by (auto simp: print_line_def split: option.splits)

lemma print_exc_keeps:
  assumes "print_exc env e w = (x, w')"
  shows "requests w' = requests w \<and> files w' = files w"
  using assms by (auto simp: print_exc_def split: option.splits)

lemma wave_wrap_None: "wave_wrap bo None = Inl TypeError"
  by (simp add: wave_wrap_defs)

lemma audio_try_body_no_audio:
  assumes "generate_content env (Request model_name_2 [] story_text) = Inr r"
    and "inline_audio r = None" and "stdout_print env = None"
  shows "\<exists>w1. files w1 = files w \<and>
    (audio_try_body env story_text w = (Inr None, w1) \<or>
     (\<exists>e. is_Exception e \<and> audio_try_body env story_text w = (Inl e, w1)))"
proof (cases "first_part r")
  case (Inl e)
  then have "is_Exception e"
    by (auto simp: first_part_def subscript0_def split: sum.splits option.splits list.splits)
  with Inl assms(1) show ?thesis
    by (auto simp: audio_try_body_def Let_def)
next
  case (Inr p)
  show ?thesis
  proof (cases p)
    case Part_without_inline_data
    with Inr assms(1) show ?thesis
      by (auto simp: audio_try_body_def Let_def print_line_quiet [OF assms(3)])
  next
    case (Part b)
    show ?thesis
    proof (cases b)
      case None
      with Part Inr assms(1) show ?thesis
        by (auto simp: audio_try_body_def Let_def)
    next
      case (Some bl)
      with Part Inr assms(2) have "bl = Blob None"
        by (cases bl) (auto simp: inline_audio_def split: option.splits)
      with Some Part Inr assms(1) show ?thesis
        by (auto simp: audio_try_body_def Let_def wave_wrap_None)
    qed
  qed
qed

lemma write_temp_file_facts:
  assumes "ordinary_result (tmp_create env)" "ordinary (tmp_write env)"
    "ordinary (tmp_flush env)" "ordinary (tmp_close env)"
  shows "case write_temp_file env contents w of
           (Inl e, w1) \<Rightarrow> is_Exception e
         | (Inr name, w1) \<Rightarrow> files w1 name = Some contents"
  using assms
  by (auto simp: write_temp_file_def ordinary_def ordinary_result_def Let_def
      split: sum.splits option.splits)

lemma audio_try_body_facts:
  assumes "ordinary_result (generate_content env (Request model_name_2 [] story_text))"
    and "ordinary_result (tmp_create env)" "ordinary (tmp_write env)"
    "ordinary (tmp_flush env)" "ordinary (tmp_close env)" "stdout_print env = None"
  shows "case audio_try_body env story_text w of
           (Inl e, w1) \<Rightarrow> is_Exception e
         | (Inr None, w1) \<Rightarrow> True
         | (Inr (Some name), w1) \<Rightarrow>
             (\<exists>d c. wave_wrap (sys_byteorder env) d = Inr c \<and> files w1 name = Some (getvalue c))"
proof (cases "generate_content env (Request model_name_2 [] story_text)")
  case (Inl e)
  with assms(1) show ?thesis
    by (simp add: audio_try_body_def ordinary_result_def Let_def)
next
  case resp: (Inr r)
  show ?thesis
  proof (cases "first_part r")
    case (Inl e)
    then have "is_Exception e"
      by (auto simp: first_part_def subscript0_def split: sum.splits option.splits list.splits)
    with Inl resp show ?thesis
      by (simp add: audio_try_body_def Let_def)
  next
    case (Inr p)
    show ?thesis
    proof (cases p)
      case Part_without_inline_data
      with Inr resp show ?thesis
        by (simp add: audio_try_body_def Let_def print_line_quiet [OF assms(6)])
    next
      case (Part b)
      show ?thesis
      proof (cases b)
        case None
        with Part Inr resp show ?thesis
          by (simp add: audio_try_body_def Let_def)
      next
        case (Some bl)
        obtain d where bl: "bl = Blob d" by (cases bl)
        show ?thesis
        proof (cases "wave_wrap (sys_byteorder env) d")
          case (Inl e)
          with wave_wrap_error [OF Inl] Some bl Part Inr resp show ?thesis
            by (simp add: audio_try_body_def Let_def)
        next
          case wrapped: (Inr c)
          let ?w1 = "w\<lparr>requests := requests w @ [Request model_name_2 [] story_text]\<rparr>"
          from write_temp_file_facts [OF assms(2-5), of "getvalue c" ?w1]
            wrapped Some bl Part Inr resp show ?thesis
            by (auto simp: audio_try_body_def Let_def split: prod.splits sum.splits)
        qed
      qed
    qed
  qed
qed

lemma quiet_wrap:
  "wave_wrap Little (Some [1, 2, 3, 4]) = Inr \<lparr>buf = quiet_container, pos = 0\<rparr>"
  unfolding quiet_container_def
  by (rule wave_wrap_container) (simp_all add: to_file_order_Little)

lemma quiet_audio:
  "generate_audio_from_generated_story quiet_outside story empty_world =
     (Inr (Some ''/tmp/tmpstory.wav''),
      empty_world\<lparr>files := [''/tmp/tmpstory.wav'' \<mapsto> quiet_container],
                  requests := [Request model_name_2 [] story]\<rparr>)"
  by (simp add: generate_audio_from_generated_story_def audio_try_body_def first_part_def
      subscript0_def write_temp_file_def print_line_def print_exc_def scenario_defs Let_def
      quiet_wrap getvalue_def)

lemma open_all_length:
  assumes "open_all f us = Inr imgs"
  shows "length imgs = length us"
  using assms
  by (induction us arbitrary: imgs) (auto split: sum.splits)

lemma import_requests:
  "requests (snd (import_Story_Generation env w)) = requests w"
  by (simp add: import_Story_Generation_def Let_def split: option.splits)

lemma limit_uploads_long:
  assumes "11 \<le> length uploaded"
  shows "fst (limit_uploads uploaded w) = take 10 uploaded \<and>
         requests (snd (limit_uploads uploaded (w :: 'img world))) = requests w"
  using assms by (auto simp: limit_uploads_def)

lemma story_handler_requests:
  "\<exists>new. requests (snd (story_handler env uploaded genre w)) = requests w @ new \<and>
     (new = [] \<or>
      (\<exists>imgs. open_all (image_open env) uploaded = Inr imgs \<and>
         new = [Request model_name_1 imgs (story_prompt genre)]))"
proof (cases "uploaded = []")
  case True
  then show ?thesis by (simp add: story_handler_def)
next
  case False
  show ?thesis
  proof (cases "open_all (image_open env) uploaded")
    case (Inl e)
    with False show ?thesis by (simp add: story_handler_def)
  next
    case (Inr imgs)
    with False show ?thesis
      by (auto simp: story_handler_def generate_story_from_images_def Let_def
          split: sum.splits)
  qed
qed

lemma audio_try_body_requests:
  "requests (snd (audio_try_body env t w)) = requests w @ [Request model_name_2 [] t]"
  by (auto simp: audio_try_body_def write_temp_file_def print_line_def Let_def
      split: sum.splits part.splits option.splits blob.splits prod.splits)

lemma generate_audio_requests:
  "requests (snd (generate_audio_from_generated_story env t w)) =
     requests w @ [Request model_name_2 [] t]"
  using audio_try_body_requests [of env t w]
  by (auto simp: generate_audio_from_generated_story_def
      split: prod.splits sum.splits option.splits
      dest!: print_line_keeps print_exc_keeps)

lemma show_gallery_world: "snd (show_gallery env uploaded w) = w"
  by (simp add: show_gallery_def split: option.splits)

lemma play_and_remove_requests:
  assumes "play_and_remove env p w = (x, w')"
  shows "requests w' = requests w"
  using assms by (auto simp: play_and_remove_def Let_def split: option.splits)

lemma audio_handler_requests:
  "\<exists>new. requests (snd (audio_handler env w)) = requests w @ new \<and>
     (new = [] \<or> (\<exists>t. new = [Request model_name_2 [] t]))"
proof (cases "session_story w")
  case None
  then show ?thesis by (simp add: audio_handler_def)
next
  case (Some story)
  obtain r w1 where g: "generate_audio_from_generated_story env story w = (r, w1)"
    by (cases "generate_audio_from_generated_story env story w")
  with generate_audio_requests [of env story w]
  have w1: "requests w1 = requests w @ [Request model_name_2 [] story]"
    by simp
  have "requests (snd (audio_handler env w)) = requests w1"
    using Some g
    by (auto simp: audio_handler_def split: sum.splits option.splits prod.splits
        dest: play_and_remove_requests)
  with w1 show ?thesis by simp
qed

lemma open_all_quiet: "open_all Inr us = Inr us"
  by (induction us) simp_all

lemma player_failure_leaves_temp_file:
  "fst (audio_handler broken_player_outside
          story_world) = None \<and>
   files (snd (audio_handler broken_player_outside
          story_world))
     ''/tmp/tmpstory.wav'' = Some quiet_container"
proof -
  have "wave_wrap Little (Some [1, 2, 3, 4]) = Inr \<lparr>buf = quiet_container, pos = 0\<rparr>"
    by (rule quiet_wrap)
  then show ?thesis
    by (simp add: audio_handler_def play_and_remove_def
        generate_audio_from_generated_story_def audio_try_body_def first_part_def
        subscript0_def write_temp_file_def print_line_def print_exc_def getvalue_def Let_def
        scenario_defs)
qed

lemma playing_removes_temp_file:
  "fst (audio_handler quiet_outside
          story_world) = None \<and>
   files (snd (audio_handler quiet_outside
          story_world))
     ''/tmp/tmpstory.wav'' = None"
proof -
  have "wave_wrap Little (Some [1, 2, 3, 4]) = Inr \<lparr>buf = quiet_container, pos = 0\<rparr>"
    by (rule quiet_wrap)
  then show ?thesis
    by (simp add: audio_handler_def play_and_remove_def
        generate_audio_from_generated_story_def audio_try_body_def first_part_def
        subscript0_def write_temp_file_def print_line_def print_exc_def getvalue_def Let_def
        scenario_defs)
qed

lemma print_failure_leaves_function:
  "fst (generate_audio_from_generated_story narrow_console_outside ''Hello world'' empty_world) =
     Inl UnicodeEncodeError"
  by (simp add: generate_audio_from_generated_story_def audio_try_body_def print_line_def
      scenario_defs Let_def)

lemma empty_audio_wrap:
  "wave_wrap Little (Some []) = Inr \<lparr>buf = container 36 0 [], pos = 0\<rparr>"
  using wave_wrap_container [of "[]" Little "[]"]
  by (simp add: to_file_order_Little)

lemma empty_audio_returns_path:
  "fst (generate_audio_from_generated_story empty_audio_outside ''Hello world'' empty_world) =
     Inr (Some ''/tmp/tmpstory.wav'') \<and>
   files (snd (generate_audio_from_generated_story empty_audio_outside ''Hello world''
     empty_world)) ''/tmp/tmpstory.wav'' = Some (container 36 0 []) \<and>
   length (container 36 0 []) = 44"
  by (simp add: generate_audio_from_generated_story_def audio_try_body_def first_part_def
      subscript0_def write_temp_file_def scenario_defs Let_def empty_audio_wrap getvalue_def)

subsection \<open>The claims about the container\<close>

text \<open>
  Claim C1, as stated, fails for buffers that the RIFF size field cannot describe: the size
  fields of the header are 32 bits wide, and \<^verbatim>\<open>struct.pack\<close> refuses a RIFF size of
  \<open>36 + len(p)\<close> that does not fit. For an (even) buffer of \<open>2 ^ 32\<close> zero bytes the
  wave-wrapping step raises \<^verbatim>\<open>struct.error\<close>, so there is no container to decode.
\<close>

theorem wave_wrap_roundtrip_counterexample:
  "even (length (replicate 4294967296 (0::byte))) \<and>
   wave_wrap Little (Some (replicate 4294967296 0)) = Inl StructError"
  by (simp add: wave_wrap_defs)

text \<open>
  Claim C1, amended: for every PCM buffer \<open>p\<close> of even length with \<open>36 + len(p) < 2 ^ 32\<close>,
  on a host of either byte order, the wave-wrapping step returns a container, and decoding
  that container with the reader of the wave module gives one channel, a sample width of
  two bytes (16 bits), 24000 frames a second, and exactly the bytes of \<open>p\<close>.
\<close>

theorem wave_wrap_roundtrip:
  assumes "even (length p)" and "36 + length p < 2 ^ 32"
  shows "\<exists>c. wave_wrap bo (Some p) = Inr c \<and>
              wave_decode bo (getvalue c) = Inr ((1, 2, 24000), p)"
proof -
  from from_to_file_order [OF assms(1)] obtain q
    where q: "to_file_order bo p = Inr q" "length q = length p" "from_file_order bo q = Inr p"
    by blast
  from assms(1) q(2) have e: "even (length q)" by simp
  from assms(2) q(2) have b: "36 + length q < 2 ^ 32" by simp
  have "wave_decode bo (container (36 + length q) (length q) q) = Inr ((1, 2, 24000), p)"
    using wave_decode_container [OF refl e b q(3)] .
  with wave_wrap_container [OF assms(2) q(1,2)] q(2) show ?thesis
    by (simp add: getvalue_def)
qed

theorem wave_wrap_roundtrip_witness:
  "even (length [1, 2, 3, 4 :: byte]) \<and> 36 + length [1, 2, 3, 4 :: byte] < (2::nat) ^ 32 \<and>
   (\<exists>c. wave_wrap Big (Some [1, 2, 3, 4]) = Inr c \<and>
        wave_decode Big (getvalue c) = Inr ((1, 2, 24000), [1, 2, 3, 4]))"
  using wave_wrap_roundtrip [of "[1, 2, 3, 4]" Big] by simp

text \<open>
  Claim C2, as stated, fails for the same reason as C1: for an even buffer of
  \<open>2 ^ 32 - 36\<close> zero bytes, the smallest one whose RIFF size does not fit, no container
  is produced.
\<close>

theorem wave_wrap_header_counterexample:
  "even (length (replicate 4294967260 (0::byte))) \<and>
   wave_wrap Little (Some (replicate 4294967260 0)) = Inl StructError"
  by (simp add: wave_wrap_defs)

text \<open>
  Claim C2, amended: for every PCM buffer \<open>p\<close> of even length (the empty one too) with
  \<open>36 + len(p) < 2 ^ 32\<close>, the container is 44 bytes of header followed by the payload,
  and the size that its data chunk declares, as the reader finds it, is \<open>len(p)\<close>. For
  48000 zero bytes the container has 48044 bytes and declares 48000.
\<close>

theorem wave_wrap_header:
  assumes "even (length p)" and "36 + length p < 2 ^ 32"
  shows "\<exists>c. wave_wrap bo (Some p) = Inr c \<and>
              length (getvalue c) = 44 + length p \<and>
              declared_data_length (getvalue c) = Inr (length p)"
proof -
  from from_to_file_order [OF assms(1)] obtain q
    where q: "to_file_order bo p = Inr q" "length q = length p"
    by blast
  from assms(2) q(2) have b: "36 + length q < 2 ^ 32" by simp
  from declared_data_length_container [OF refl b] wave_wrap_container [OF assms(2) q] q(2)
  show ?thesis
    by (simp add: getvalue_def)
qed

theorem wave_wrap_header_witness:
  "even (length (replicate 48000 (0::byte))) \<and>
   36 + length (replicate 48000 (0::byte)) < (2::nat) ^ 32 \<and>
   (\<exists>c. wave_wrap Little (Some (replicate 48000 0)) = Inr c \<and>
        length (getvalue c) = 48044 \<and>
        declared_data_length (getvalue c) = Inr 48000)"
  using wave_wrap_header [of "replicate 48000 0" Little] by simp

text \<open>
  Claim C3, as stated, fails: the code has no check of the length and no truncation. For
  the three bytes 1, 2, 3 on a little-endian host the wave-wrapping step neither fails nor
  drops the odd byte: it returns a container with all three bytes as payload.
\<close>

theorem wave_wrap_odd_counterexample:
  "odd (length [1, 2, 3 :: byte]) \<and>
   wave_wrap Little (Some [1, 2, 3]) =
     Inr \<lparr>buf = ascii ''RIFF'' @ [39, 0, 0, 0] @ ascii ''WAVEfmt '' @
                [16, 0, 0, 0, 1, 0, 1, 0, 192, 93, 0, 0, 128, 187, 0, 0, 2, 0, 16, 0] @
                ascii ''data'' @ [3, 0, 0, 0] @ [1, 2, 3],
          pos = 0\<rparr>"
  by (simp add: wave_wrap_defs le_bytes_numeral)

text \<open>
  Claim C3, amended: for every PCM buffer \<open>p\<close> of odd length with
  \<open>36 + len(p) < 2 ^ 32\<close>, on a little-endian host the wave-wrapping step succeeds and
  writes the 44 bytes of header followed by all of \<open>p\<close>, and the header is patched so that
  the declared data length is \<open>len(p)\<close>, the number of payload bytes written: header and
  payload never disagree. On a big-endian host the byte swap of the odd buffer raises
  \<^verbatim>\<open>IndexError\<close> and no container is returned.
\<close>

theorem wave_wrap_odd:
  assumes "odd (length p)" and "36 + length p < 2 ^ 32"
  shows "(\<exists>c. wave_wrap Little (Some p) = Inr c \<and>
               length (getvalue c) = 44 + length p \<and>
               drop 44 (getvalue c) = p \<and>
               declared_data_length (getvalue c) = Inr (length p)) \<and>
         wave_wrap Big (Some p) = Inl IndexError"
proof -
  from declared_data_length_container [OF refl assms(2)]
    wave_wrap_container [OF assms(2) to_file_order_Little refl]
  have "\<exists>c. wave_wrap Little (Some p) = Inr c \<and>
               length (getvalue c) = 44 + length p \<and>
               drop 44 (getvalue c) = p \<and>
               declared_data_length (getvalue c) = Inr (length p)"
    by (simp add: getvalue_def container_parts)
  with wave_wrap_Big_odd [OF assms] show ?thesis
    by simp
qed

theorem wave_wrap_odd_witness:
  "odd (length [7 :: byte]) \<and> 36 + length [7 :: byte] < (2::nat) ^ 32 \<and>
   (\<exists>c. wave_wrap Little (Some [7]) = Inr c \<and>
        length (getvalue c) = 45 \<and>
        drop 44 (getvalue c) = [7] \<and>
        declared_data_length (getvalue c) = Inr 1) \<and>
   wave_wrap Big (Some [7]) = Inl IndexError"
  using wave_wrap_odd [of "[7]"] by simp

subsection \<open>The claims about the flows\<close>

text \<open>
  Claim C4, as stated, fails: the function has one way to report that no audio came
  back, the return value \<^verbatim>\<open>None\<close>, and it returns the same value when the remote call
  fails. For the text \<open>Hello world\<close>, a response whose first part carries text only and
  a failure of the client both give \<^verbatim>\<open>None\<close>; the caller cannot tell them apart.
\<close>

theorem no_audio_indistinguishable_counterexample:
  "fst (generate_audio_from_generated_story text_only_outside ''Hello world'' empty_world) =
     Inr None \<and>
   fst (generate_audio_from_generated_story unreachable_outside ''Hello world'' empty_world) =
     Inr None"
  by (simp add: generate_audio_from_generated_story_def audio_try_body_def first_part_def
      subscript0_def print_line_def print_exc_def scenario_defs Let_def)

text \<open>
  Claim C4, amended: for every text, as long as the prints to the console do not raise,
  when the speech request fails with an \<^verbatim>\<open>Exception\<close>, or succeeds with a response that
  has no inline audio payload (there is no first part, the first part has no
  \<^verbatim>\<open>inline_data\<close>, its \<^verbatim>\<open>inline_data\<close> is \<^verbatim>\<open>None\<close>, or the \<^verbatim>\<open>data\<close> of that is
  \<^verbatim>\<open>None\<close>), the function returns \<^verbatim>\<open>None\<close> and leaves the files as they were. A
  missing payload is not a condition of its own: it is reported exactly as a failed
  request is. A payload that is an empty bytes object is a payload and is not meant here
  (\<open>empty_audio_returns_path\<close>: the function then writes a container of 44 bytes and
  returns its path).
\<close>

theorem no_audio_returns_None:
  assumes "failure_or_no_audio (generate_content env (Request model_name_2 [] story_text))"
    and "stdout_print env = None" and "traceback_print env = None"
  shows "fst (generate_audio_from_generated_story env story_text w) = Inr None \<and>
         files (snd (generate_audio_from_generated_story env story_text w)) = files w"
proof (cases "generate_content env (Request model_name_2 [] story_text)")
  case (Inl e)
  with assms(1) have "is_Exception e"
    by (simp add: failure_or_no_audio_def)
  with Inl show ?thesis
    by (simp add: generate_audio_from_generated_story_def audio_try_body_def Let_def
        print_line_quiet [OF assms(2)] print_exc_quiet [OF assms(3)])
next
  case (Inr r)
  with assms(1) have "inline_audio r = None"
    by (simp add: failure_or_no_audio_def)
  from audio_try_body_no_audio [OF Inr this assms(2), of w] show ?thesis
    by (auto simp: generate_audio_from_generated_story_def
        print_line_quiet [OF assms(2)] print_exc_quiet [OF assms(3)])
qed

theorem no_audio_returns_None_witness:
  "failure_or_no_audio
     (generate_content text_only_outside (Request model_name_2 [] ''Hello world'')) \<and>
   stdout_print text_only_outside = None \<and> traceback_print text_only_outside = None \<and>
   fst (generate_audio_from_generated_story text_only_outside ''Hello world'' empty_world) =
     Inr None"
proof -
  have h: "failure_or_no_audio
     (generate_content text_only_outside (Request model_name_2 [] ''Hello world''))"
    by (simp add: failure_or_no_audio_def inline_audio_def first_part_def subscript0_def
        scenario_defs)
  have p: "stdout_print text_only_outside = None" "traceback_print text_only_outside = None"
    by (simp_all add: scenario_defs)
  from no_audio_returns_None [OF h p, of empty_world] h p show ?thesis
    by simp
qed

text \<open>
  Claim C7. When the key is missing from the environment or empty, loading the module
  ends with \<^verbatim>\<open>ValueError\<close> before the client is constructed, and so does the script that
  imports it: the world is the one before the run, with no client constructed and no
  request sent, whatever the user uploaded or clicked.
\<close>

theorem missing_credential_stops:
  assumes "\<not> truthy (getenv env ''GOOGLE_API_KEY'')"
  shows "import_Story_Generation env w = (Inl (ValueError ''!!!API KEY NOT FOUND!!!''), w) \<and>
         app_script env inp w = (Some (ValueError ''!!!API KEY NOT FOUND!!!''), w)"
  using assms by (simp add: app_script_def import_Story_Generation_def)

theorem missing_credential_stops_witness:
  "\<not> truthy (getenv keyless_outside ''GOOGLE_API_KEY'') \<and>
   app_script keyless_outside (all_buttons 3) story_world =
     (Some (ValueError ''!!!API KEY NOT FOUND!!!''), story_world) \<and>
   clients story_world = [] \<and>
   requests story_world = []"
proof -
  have h: "\<not> truthy (getenv keyless_outside ''GOOGLE_API_KEY'')"
    by (simp add: truthy_def scenario_defs)
  from missing_credential_stops [OF h] h show ?thesis
    by (simp add: scenario_defs)
qed

text \<open>
  Claim C8. When eleven or more images are uploaded, every request that a run of the
  script sends carries at most ten images, and a request to the story model carries
  exactly the first ten uploads, opened in their order. The cut is made by the script
  (app.py lines 177-179); \<^verbatim>\<open>generate_story_from_images\<close> forwards what it is given.
\<close>

theorem story_request_image_bound:
  assumes "11 \<le> length (uploaded_images inp)"
  shows "\<exists>new. requests (snd (app_script env inp w)) = requests w @ new \<and>
     (\<forall>rq \<in> set new.
        length (images rq) \<le> 10 \<and>
        (model rq = model_name_1 \<longrightarrow>
           open_all (image_open env) (take 10 (uploaded_images inp)) = Inr (images rq)))"
proof (cases "import_Story_Generation env w")
  case (Pair r w1)
  from import_requests [of env w] Pair have w1: "requests w1 = requests w"
    by simp
  show ?thesis
  proof (cases r)
    case (Inl e)
    with Pair w1 have "requests (snd (app_script env inp w)) = requests w @ []"
      by (simp add: app_script_def)
    then show ?thesis
      by (intro exI [of _ "[]"]) simp
  next
    case (Inr key)
    obtain w2 where lim: "limit_uploads (uploaded_images inp) w1 = (take 10 (uploaded_images inp), w2)"
      and w2: "requests w2 = requests w1"
      using limit_uploads_long [OF assms, of w1]
      by (cases "limit_uploads (uploaded_images inp) w1") auto
    let ?up = "take 10 (uploaded_images inp)"
    obtain g where gal: "show_gallery env ?up w2 = (g, w2)"
      using show_gallery_world [of env ?up w2]
      by (cases "show_gallery env ?up w2") simp
    define st where "st = (if generate_button inp then story_handler env ?up (story_type inp) w2
                      else (None, w2))"
    obtain x w3 where st3: "st = (x, w3)" by (cases st)
    have "\<exists>new. requests w3 = requests w2 @ new \<and>
       (new = [] \<or>
        (\<exists>imgs. open_all (image_open env) ?up = Inr imgs \<and>
           new = [Request model_name_1 imgs (story_prompt (story_type inp))]))"
      using story_handler_requests [of env ?up "story_type inp" w2] st3
      by (auto simp: st_def split: if_splits)
    then obtain new1 where n1: "requests w3 = requests w2 @ new1"
      and n1': "new1 = [] \<or>
        (\<exists>imgs. open_all (image_open env) ?up = Inr imgs \<and>
           new1 = [Request model_name_1 imgs (story_prompt (story_type inp))])"
      by blast
    have b1: "\<forall>rq \<in> set new1. length (images rq) \<le> 10 \<and>
        (model rq = model_name_1 \<longrightarrow> open_all (image_open env) ?up = Inr (images rq))"
      using n1' by (auto dest: open_all_length)
    define fin where "fin = (case x of Some e \<Rightarrow> (Some e, w3)
        | None \<Rightarrow> if generate_audio_button inp then audio_handler env w3 else (None, w3))"
    have "\<exists>new. requests (snd fin) = requests w3 @ new \<and>
       (new = [] \<or> (\<exists>t. new = [Request model_name_2 [] t]))"
      using audio_handler_requests [of env w3]
      by (auto simp: fin_def split: option.splits)
    then obtain new2 where n2: "requests (snd fin) = requests w3 @ new2"
      and n2': "new2 = [] \<or> (\<exists>t. new2 = [Request model_name_2 [] t])"
      by blast
    have ne: "model_name_2 \<noteq> model_name_1"
      by (simp add: model_name_1_def model_name_2_def)
    have b2: "\<forall>rq \<in> set new2. length (images rq) \<le> 10 \<and>
        (model rq = model_name_1 \<longrightarrow> open_all (image_open env) ?up = Inr (images rq))"
      using n2' ne by auto
    have "app_script env inp w = (if g = None then fin else (g, w2))"
      using Pair Inr lim gal st3
      by (cases g) (simp_all add: app_script_def fin_def st_def [symmetric])
    with n1 n2 w1 w2 have "requests (snd (app_script env inp w)) =
        requests w @ (if g = None then new1 @ new2 else [])"
      by simp
    moreover from b1 b2 have "\<forall>rq \<in> set (if g = None then new1 @ new2 else []).
        length (images rq) \<le> 10 \<and>
        (model rq = model_name_1 \<longrightarrow> open_all (image_open env) ?up = Inr (images rq))"
      by auto
    ultimately show ?thesis by blast
  qed
qed

theorem story_request_image_bound_witness:
  "11 \<le> length (uploaded_images (all_buttons 11)) \<and>
   requests (snd (app_script quiet_outside (all_buttons 11) empty_world)) =
     [Request model_name_1 (replicate 10 ()) (story_prompt ''Comedy''),
      Request model_name_2 [] ''Once upon a time...'']"
proof -
  have h: "11 \<le> length (uploaded_images (all_buttons 11))"
    by (simp add: all_buttons_def)
  from story_request_image_bound [OF h, of quiet_outside empty_world]
  obtain new where new: "requests (snd (app_script quiet_outside (all_buttons 11) empty_world)) =
      requests empty_world @ new"
    by blast
  have "wave_wrap Little (Some [1, 2, 3, 4]) = Inr \<lparr>buf = quiet_container, pos = 0\<rparr>"
    by (rule quiet_wrap)
  then have "requests (snd (app_script quiet_outside (all_buttons 11) empty_world)) =
     [Request model_name_1 (replicate 10 ()) (story_prompt ''Comedy''),
      Request model_name_2 [] ''Once upon a time...'']"
    by (simp add: app_script_def import_Story_Generation_def limit_uploads_def story_handler_def
        generate_story_from_images_def audio_handler_def play_and_remove_def
        generate_audio_from_generated_story_def audio_try_body_def first_part_def
        subscript0_def write_temp_file_def show_gallery_def print_line_def print_exc_def
        truthy_def getvalue_def Let_def open_all_quiet scenario_defs)
  with h new show ?thesis
    by simp
qed

text \<open>
  Claim C9 does not hold of the code. The temporary file is created with
  \<^verbatim>\<open>delete=False\<close> and is removed in one place only, at the end of the branch of the
  audio handler that has played it. When writing the file fails after it has been created
  (here: \<^verbatim>\<open>OSError\<close>, a full disk), \<^verbatim>\<open>generate_audio_from_generated_story\<close> returns
  \<^verbatim>\<open>None\<close>, the handler reports the failure and ends normally, and the file is still
  there. (\<open>player_failure_leaves_temp_file\<close> is a second such path, and
  \<open>playing_removes_temp_file\<close> the path that does remove the file.)
\<close>

theorem temp_file_left_behind:
  "fst (audio_handler disk_full_outside story_world) = None \<and>
   files (snd (audio_handler disk_full_outside story_world)) ''/tmp/tmpstory.wav'' = Some []"
proof -
  have "wave_wrap Little (Some [1, 2, 3, 4]) = Inr \<lparr>buf = quiet_container, pos = 0\<rparr>"
    by (rule quiet_wrap)
  then show ?thesis
    by (simp add: audio_handler_def play_and_remove_def
        generate_audio_from_generated_story_def audio_try_body_def first_part_def
        subscript0_def write_temp_file_def print_line_def print_exc_def getvalue_def Let_def
        scenario_defs)
qed

text \<open>
  Claim C10, as stated, fails: the handler is \<^verbatim>\<open>except Exception\<close>, and an exception
  that is not an instance of \<^verbatim>\<open>Exception\<close> passes it. When the remote call is
  interrupted from the keyboard, \<^verbatim>\<open>KeyboardInterrupt\<close> reaches the caller.
\<close>

theorem generate_audio_propagates_counterexample:
  "fst (generate_audio_from_generated_story interrupted_outside ''Hello world'' empty_world) =
     Inl KeyboardInterrupt"
  by (simp add: generate_audio_from_generated_story_def audio_try_body_def scenario_defs Let_def)

text \<open>
  Claim C10, amended: for every text and every outcome of the remote call, of the
  encoding step and of the four operations on the temporary file, as long as whatever
  these raise is an instance of \<^verbatim>\<open>Exception\<close> (the encoding step raises nothing else)
  and as long as \<^verbatim>\<open>print\<close> and \<^verbatim>\<open>traceback.print_exc\<close> do not raise, the function
  returns to its caller: either \<^verbatim>\<open>None\<close>, or the path of a file that holds the
  container made from the audio bytes of the response. The amended claim says nothing of
  a print that raises (\<open>print_failure_leaves_function\<close>: on a standard output that
  cannot encode the cross mark, \<^verbatim>\<open>UnicodeEncodeError\<close> leaves the handler).
\<close>

theorem generate_audio_total:
  assumes "ordinary_result (generate_content env (Request model_name_2 [] story_text))"
    and "ordinary_result (tmp_create env)" "ordinary (tmp_write env)"
    "ordinary (tmp_flush env)" "ordinary (tmp_close env)"
    and "stdout_print env = None" "traceback_print env = None"
  shows "\<exists>r. fst (generate_audio_from_generated_story env story_text w) = Inr r \<and>
           (\<forall>name. r = Some name \<longrightarrow>
              (\<exists>d c. wave_wrap (sys_byteorder env) d = Inr c \<and>
                 files (snd (generate_audio_from_generated_story env story_text w)) name =
                   Some (getvalue c)))"
  using audio_try_body_facts [OF assms(1-6), of w]
  by (auto simp: generate_audio_from_generated_story_def
      print_line_quiet [OF assms(6)] print_exc_quiet [OF assms(7)]
      split: prod.splits sum.splits option.splits)

theorem generate_audio_total_witness:
  "ordinary_result (generate_content quiet_outside (Request model_name_2 [] ''Hello world'')) \<and>
   ordinary_result (tmp_create quiet_outside) \<and> ordinary (tmp_write quiet_outside) \<and>
   ordinary (tmp_flush quiet_outside) \<and> ordinary (tmp_close quiet_outside) \<and>
   stdout_print quiet_outside = None \<and> traceback_print quiet_outside = None \<and>
   (\<exists>r. fst (generate_audio_from_generated_story quiet_outside ''Hello world'' empty_world) =
          Inr r)"
proof -
  have h: "ordinary_result (generate_content quiet_outside (Request model_name_2 [] ''Hello world''))"
    "ordinary_result (tmp_create quiet_outside)" "ordinary (tmp_write quiet_outside)"
    "ordinary (tmp_flush quiet_outside)" "ordinary (tmp_close quiet_outside)"
    "stdout_print quiet_outside = None" "traceback_print quiet_outside = None"
    by (simp_all add: ordinary_def ordinary_result_def quiet_outside_def)
  from generate_audio_total [OF h, of empty_world] h show ?thesis
    by blast
qed

end
